theory Spec2Isabelle
  imports Complex_Main "HOL-Library.Char_ord" "HOL-Library.List_Lexorder"
begin

section \<open>CCSeva: the z.ai usage service, the settings service and the poller\<close>

text \<open>
  The development embeds \<^verbatim>\<open>src/services/zaiService.ts\<close>, \<^verbatim>\<open>src/services/settingsService.ts\<close>,
  \<^verbatim>\<open>src/types/usage.ts\<close> and the service selection of \<^verbatim>\<open>main.ts\<close>.

  Conventions.
  \<^item> A JavaScript \<^verbatim>\<open>number\<close> is a \<^typ>\<open>real\<close>: arithmetic is exact, and the IEEE values
    NaN and the infinities are outside the model, except where the code can produce NaN from
    an invalid \<^verbatim>\<open>Date\<close> (then the field is an option and \<open>None\<close> is NaN).
  \<^item> A \<^verbatim>\<open>Date\<close> is its time value in milliseconds, an \<^typ>\<open>int\<close>, or \<open>None\<close> for
    \<^verbatim>\<open>Invalid Date\<close>.
  \<^item> A field that the code guards with \<^verbatim>\<open>?.\<close>, \<^verbatim>\<open>||\<close> or \<^verbatim>\<open>!\<close> is an option; \<open>None\<close> is
    \<^verbatim>\<open>undefined\<close>.
  \<^item> Functions of the host (\<^verbatim>\<open>Date\<close> formatting and parsing, \<^verbatim>\<open>localeCompare\<close>) are the
    fields of a record \<open>platform\<close>; every theorem holds for every platform unless it says
    otherwise.
\<close>

subsection \<open>Types of \<^verbatim>\<open>src/types/usage.ts\<close>\<close>

record DailyUsage =
  date :: string
  totalTokens :: real
  totalCost :: real
  models :: "(string \<times> real \<times> real) list"

record ResetTimeInfo =
  nextResetTime :: string
  timeUntilReset :: real
  resetHour :: real
  timezone :: string
  percentUntilReset :: real
  daysInCycle :: real
  daysSinceReset :: real

datatype trend_direction = increasing | decreasing | stable

record VelocityInfo =
  current :: real
  average24h :: real
  average7d :: real
  trend :: trend_direction
  trendPercent :: real
  peakHour :: real
  isAccelerating :: bool

record PredictionInfo =
  depletionTime :: "string option"
  confidence :: real
  daysRemaining :: real
  recommendedDailyLimit :: real
  onTrackForReset :: bool

text \<open>
  \<open>ar_nextResetTime\<close> is the \<^verbatim>\<open>Date\<close> (its time value), \<open>ar_timeUntilReset\<close> a number that is
  NaN (\<open>None\<close>) when that date is invalid.
\<close>

record ActualResetInfo =
  ar_nextResetTime :: "int option"
  ar_timeUntilReset :: "int option"
  formattedTimeRemaining :: string

datatype plan_name = Pro | Max5 | Max20 | Custom

text \<open>
  The optional fields \<^verbatim>\<open>sessionTracking\<close>, \<^verbatim>\<open>enhancedResetInfo\<close>, \<^verbatim>\<open>advancedBurnRate\<close>,
  \<^verbatim>\<open>planManager\<close> and \<^verbatim>\<open>limitDetection\<close> are never set by the z.ai service and are left out.
\<close>

record UsageStats =
  today :: DailyUsage
  thisWeek :: "DailyUsage list"
  thisMonth :: "DailyUsage list"
  burnRate :: real
  velocity :: VelocityInfo
  prediction :: PredictionInfo
  resetInfo :: ResetTimeInfo
  actualResetInfo :: "ActualResetInfo option"
  predictedDepleted :: "string option"
  currentPlan :: plan_name
  tokenLimit :: real
  tokensUsed :: real
  tokensRemaining :: real
  percentageUsed :: real

record ZaiQuotaLimit =
  type :: string
  unit :: real
  number :: real
  usage :: real
  currentValue :: real
  remaining :: real
  percentage :: real
  q_nextResetTime :: "real option"

record ZaiQuotaData =
  limits :: "ZaiQuotaLimit list option"

record ZaiQuotaResponse =
  q_code :: real
  msg :: string
  q_data :: "ZaiQuotaData option"
  q_success :: bool

record ZaiTotalUsage =
  totalModelCallCount :: real
  totalTokensUsage :: real

record ZaiModelUsageData =
  totalUsage :: "ZaiTotalUsage option"
  x_time :: "string list option"

record ZaiModelUsageResponse =
  code :: real
  data :: "ZaiModelUsageData option"
  success :: bool

subsection \<open>Host functions\<close>

text \<open>
  \<open>Math_round\<close> rounds half up, as \<^verbatim>\<open>Math.round\<close> does; \<open>Math_floor\<close> is \<^verbatim>\<open>Math.floor\<close>.
  Both return a number.
\<close>

definition Math_round :: "real \<Rightarrow> real" where
  "Math_round x = real_of_int \<lfloor>x + 1 / 2\<rfloor>"

definition Math_floor :: "real \<Rightarrow> real" where
  "Math_floor x = real_of_int \<lfloor>x\<rfloor>"

text \<open>\<^verbatim>\<open>v || d\<close> on a number that may be undefined: 0 is falsy as well.\<close>

definition num_or :: "real option \<Rightarrow> real \<Rightarrow> real" where
  "num_or v d = (case v of None \<Rightarrow> d | Some x \<Rightarrow> if x = 0 then d else x)"

subsection \<open>\<^verbatim>\<open>ZAIService.calculateVelocityFromModelUsage\<close>\<close>

text \<open>
  \<^verbatim>\<open>modelUsage.data\<close> is read without a guard; \<^verbatim>\<open>fetchModelUsage\<close> returns a response only
  when it is present, so the functions below take the data record.
\<close>

definition hourlyData_of :: "ZaiModelUsageData \<Rightarrow> string list" where
  "hourlyData_of d = (case x_time d of None \<Rightarrow> [] | Some xs \<Rightarrow> xs)"

definition totalTokens_of :: "ZaiModelUsageData \<Rightarrow> real" where
  "totalTokens_of d = num_or (map_option totalTokensUsage (totalUsage d)) 0"

definition velocity_current :: "ZaiModelUsageData \<Rightarrow> real" where
  "velocity_current d =
     (let hourlyData = hourlyData_of d in
      if length hourlyData > 0 then
        (let totalTokens = totalTokens_of d in
         if totalTokens > 0 \<and> length hourlyData > 0
         then totalTokens / max 1 (real (length hourlyData) / 24)
         else 0)
      else 0)"

definition calculateVelocityFromModelUsage :: "ZaiModelUsageData \<Rightarrow> VelocityInfo" where
  "calculateVelocityFromModelUsage d =
     (let current = velocity_current d;
          total24h = current;
          total7d = current * (8 / 10);
          trendPercent = (if total24h > 0 then ((current - total24h) / total24h) * 100 else 0);
          trend = (if \<bar>trendPercent\<bar> > 15
                   then (if trendPercent > 0 then increasing else decreasing)
                   else stable)
      in \<lparr> current = Math_round current,
           average24h = Math_round total24h,
           average7d = Math_round total7d,
           trend = trend,
           trendPercent = Math_round (trendPercent * 10) / 10,
           peakHour = 14,
           isAccelerating = (trend = increasing \<and> trendPercent > 20) \<rparr>)"

subsection \<open>\<^verbatim>\<open>ZAIService.mapHourlyToDailyUsage\<close>\<close>

text \<open>
  The host. \<open>localeCompare\<close> is \<^verbatim>\<open>String.prototype.localeCompare\<close> (negative, zero or
  positive); \<open>isoString\<close> is \<^verbatim>\<open>Date.prototype.toISOString\<close> on a valid time value;
  \<open>parseDate\<close> is the time value of \<^verbatim>\<open>new Date(str)\<close>, \<open>None\<close> when the date is invalid;
  \<open>daysBefore t n\<close> is the time value after \<^verbatim>\<open>d.setDate(d.getDate() - n)\<close> on a date of time
  value \<open>t\<close> (local calendar arithmetic).
\<close>

record platform =
  localeCompare :: "string \<Rightarrow> string \<Rightarrow> int"
  isoString :: "int \<Rightarrow> string"
  parseDate :: "string \<Rightarrow> int option"
  daysBefore :: "int \<Rightarrow> int \<Rightarrow> int option"

text \<open>\<^verbatim>\<open>s.split(c)[0]\<close>: the part of \<open>s\<close> before the first \<open>c\<close>, all of \<open>s\<close> without one.\<close>

definition split_first :: "char \<Rightarrow> string \<Rightarrow> string" where
  "split_first c s = takeWhile (\<lambda>x. x \<noteq> c) s"

text \<open>
  \<^verbatim>\<open>Array.prototype.sort\<close> with a comparison function: a stable sort, here by insertion.
\<close>

fun sort_insert :: "('a \<Rightarrow> 'a \<Rightarrow> int) \<Rightarrow> 'a \<Rightarrow> 'a list \<Rightarrow> 'a list" where
  "sort_insert cmp x [] = [x]"
| "sort_insert cmp x (y # ys) =
     (if cmp x y \<le> 0 then x # y # ys else y # sort_insert cmp x ys)"

definition array_sort :: "('a \<Rightarrow> 'a \<Rightarrow> int) \<Rightarrow> 'a list \<Rightarrow> 'a list" where
  "array_sort cmp xs = foldr (sort_insert cmp) xs []"

text \<open>
  The \<^verbatim>\<open>Map<string, DailyUsage>\<close> is an association list in insertion order, which is the
  order of \<^verbatim>\<open>dailyMap.values()\<close>.
\<close>

definition newDaily :: "string \<Rightarrow> DailyUsage" where
  "newDaily datePart = \<lparr> date = datePart, totalTokens = 0, totalCost = 0, models = [] \<rparr>"

definition aggregate_hour ::
  "(string \<times> DailyUsage) list \<Rightarrow> string \<Rightarrow> (string \<times> DailyUsage) list" where
  "aggregate_hour dailyMap hourStr =
     (let datePart = split_first CHR '' '' hourStr in
      if datePart = [] then dailyMap
      else
        (let dailyMap1 =
               (if map_of dailyMap datePart = None
                then dailyMap @ [(datePart, newDaily datePart)]
                else dailyMap)
         in map (\<lambda>(k, daily).
                  if k = datePart
                  then (k, daily\<lparr> totalTokens := totalTokens daily + 0 \<rparr>)
                  else (k, daily)) dailyMap1))"

definition distribute_tokens :: "real \<Rightarrow> DailyUsage list \<Rightarrow> DailyUsage list" where
  "distribute_tokens totalTokens' days =
     (if totalTokens' > 0 \<and> length days > 0
      then (let tokensPerDay = Math_floor (totalTokens' / real (length days))
            in map (\<lambda>daily. daily\<lparr> totalTokens := tokensPerDay \<rparr>) days)
      else days)"

definition mapHourlyToDailyUsage :: "platform \<Rightarrow> ZaiModelUsageData \<Rightarrow> DailyUsage list" where
  "mapHourlyToDailyUsage P d =
     (let dailyMap = foldl aggregate_hour [] (hourlyData_of d);
          days = distribute_tokens (totalTokens_of d) (map snd dailyMap)
      in array_sort (\<lambda>a b. localeCompare P (date a) (date b)) days)"

text \<open>
  The dates of a response: the non-empty date parts of \<^verbatim>\<open>x_time\<close>.
\<close>

definition response_dates :: "ZaiModelUsageData \<Rightarrow> string list" where
  "response_dates d = filter (\<lambda>s. s \<noteq> []) (map (split_first CHR '' '') (hourlyData_of d))"

text \<open>
  A consistent comparison function, as ECMAScript requires of \<^verbatim>\<open>localeCompare\<close>: any two
  strings are comparable and the comparison is transitive.
\<close>

definition consistent_comparator :: "('a \<Rightarrow> 'a \<Rightarrow> int) \<Rightarrow> bool" where
  "consistent_comparator cmp \<longleftrightarrow>
     (\<forall>a b. cmp a b \<le> 0 \<or> cmp b a \<le> 0) \<and>
     (\<forall>a b c. cmp a b \<le> 0 \<and> cmp b c \<le> 0 \<longrightarrow> cmp a c \<le> 0)"

text \<open>A host for the examples: strings compare by code units.\<close>

definition code_unit_compare :: "string \<Rightarrow> string \<Rightarrow> int" where
  "code_unit_compare a b = (if a < b then - 1 else if a = b then 0 else 1)"

definition example_platform :: platform where
  "example_platform =
     \<lparr> localeCompare = code_unit_compare,
       isoString = (\<lambda>t. ''2024-03-10T12:00:00.000Z''),
       parseDate = (\<lambda>s. if s = ''2024-03-10'' then Some 1710028800000 else None),
       daysBefore = (\<lambda>t n. Some (t - n * 86400000)) \<rparr>"

subsection \<open>Errors and HTTP responses\<close>

text \<open>
  Every \<^verbatim>\<open>throw\<close> of the service is a value of \<open>error\<close>. The first six are the
  \<^verbatim>\<open>new Error(...)\<close> of \<^verbatim>\<open>fetchQuotaLimit\<close> and \<^verbatim>\<open>fetchModelUsage\<close>, in the order of the
  source; \<open>RequestFailed\<close> carries the status of its message. \<open>FetchRejected\<close> is a rejection
  of \<^verbatim>\<open>fetch\<close> itself (no response), \<open>JsonRejected\<close> a rejection of \<^verbatim>\<open>response.json()\<close>,
  \<open>TypeError\<close> a property read on \<^verbatim>\<open>undefined\<close> and \<open>RangeError\<close> the error of
  \<^verbatim>\<open>toISOString\<close> on an invalid date.
\<close>

datatype error =
    AuthenticationFailed
  | RateLimitExceeded
  | RequestFailed nat
  | InvalidQuotaResponse
  | TokensLimitNotFound
  | InvalidModelUsageResponse
  | FetchRejected
  | JsonRejected
  | TypeError
  | RangeError

text \<open>
  What \<^verbatim>\<open>await fetch(...)\<close> gives: a rejection, or a response with its status and its body
  as \<^verbatim>\<open>response.json()\<close> reads it (\<open>None\<close> when that rejects). \<^verbatim>\<open>response.ok\<close> is defined by
  the Fetch standard as a status from 200 to 299.
\<close>

datatype 'b fetch_result = Rejected | Responded nat "'b option"

definition response_ok :: "nat \<Rightarrow> bool" where
  "response_ok status \<longleftrightarrow> 200 \<le> status \<and> status \<le> 299"

subsection \<open>\<^verbatim>\<open>ZAIService.fetchQuotaLimit\<close> and \<^verbatim>\<open>ZAIService.fetchModelUsage\<close>\<close>

text \<open>
  Each function issues one GET request and awaits it; the definitions are what the function
  does with the outcome of that request. The \<^verbatim>\<open>catch\<close> of each logs and rethrows the error
  unchanged.
\<close>

definition fetchQuotaLimit :: "ZaiQuotaResponse fetch_result \<Rightarrow> error + ZaiQuotaLimit" where
  "fetchQuotaLimit response =
     (case response of
        Rejected \<Rightarrow> Inl FetchRejected
      | Responded status body \<Rightarrow>
          if \<not> response_ok status then
            (if status = 401 \<or> status = 403 then Inl AuthenticationFailed
             else if status = 429 then Inl RateLimitExceeded
             else Inl (RequestFailed status))
          else
            (case body of
               None \<Rightarrow> Inl JsonRejected
             | Some data' \<Rightarrow>
                 (case (if q_success data' then Option.bind (q_data data') limits else None) of
                    None \<Rightarrow> Inl InvalidQuotaResponse
                  | Some limits' \<Rightarrow>
                      (case find (\<lambda>limit. type limit = ''TOKENS_LIMIT'') limits' of
                         None \<Rightarrow> Inl TokensLimitNotFound
                       | Some tokensLimit \<Rightarrow> Inr tokensLimit))))"

definition fetchModelUsage ::
  "ZaiModelUsageResponse fetch_result \<Rightarrow> error + ZaiModelUsageResponse" where
  "fetchModelUsage response =
     (case response of
        Rejected \<Rightarrow> Inl FetchRejected
      | Responded status body \<Rightarrow>
          if \<not> response_ok status then
            (if status = 401 \<or> status = 403 then Inl AuthenticationFailed
             else if status = 429 then Inl RateLimitExceeded
             else Inl (RequestFailed status))
          else
            (case body of
               None \<Rightarrow> Inl JsonRejected
             | Some data' \<Rightarrow>
                 if \<not> success data' \<or> data data' = None
                 then Inl InvalidModelUsageResponse
                 else Inr data'))"

subsection \<open>Dates\<close>

text \<open>
  \<open>new_Date t\<close> is \<^verbatim>\<open>new Date(t)\<close> on a number: the time value is truncated towards zero, and
  the date is invalid when \<open>t\<close> is beyond 8.64e15 milliseconds of the epoch. \<open>toISOString\<close>
  throws a RangeError on an invalid date.
\<close>

definition new_Date :: "real \<Rightarrow> int option" where
  "new_Date t =
     (if \<bar>t\<bar> \<le> 8640000000000000
      then Some (if 0 \<le> t then \<lfloor>t\<rfloor> else \<lceil>t\<rceil>)
      else None)"

definition toISOString :: "platform \<Rightarrow> int option \<Rightarrow> error + string" where
  "toISOString P d = (case d of None \<Rightarrow> Inl RangeError | Some t \<Rightarrow> Inr (isoString P t))"

text \<open>\<^verbatim>\<open>a >= b\<close> on two dates: false when either is invalid.\<close>

definition date_ge :: "int option \<Rightarrow> int option \<Rightarrow> bool" where
  "date_ge a b = (case (a, b) of (Some x, Some y) \<Rightarrow> x \<ge> y | _ \<Rightarrow> False)"

text \<open>A non-negative integer in a template string (below 1e21: plain decimal digits).\<close>

fun string_of_nat :: "nat \<Rightarrow> string" where
  "string_of_nat n =
     (if n < 10 then [''0123456789'' ! n]
      else string_of_nat (n div 10) @ [''0123456789'' ! (n mod 10)])"

subsection \<open>The service and one call\<close>

text \<open>
  The fields of \<^verbatim>\<open>ZAIService\<close> that change or are read (\<^verbatim>\<open>baseUrl\<close> is a constant of the
  requests). \<open>cachedStats = None\<close> is \<^verbatim>\<open>null\<close>.
\<close>

record ZAIService =
  apiKey :: string
  cachedStats :: "UsageStats option"
  lastUpdate :: int
  lastQuotaData :: "ZaiQuotaLimit option"
  lastModelUsageData :: "ZaiModelUsageResponse option"

definition CACHE_DURATION :: int where
  "CACHE_DURATION = 30000"

text \<open>
  What one call of \<^verbatim>\<open>getUsageStats\<close> reads from outside: \<open>now\<close> is \<^verbatim>\<open>Date.now()\<close> at entry;
  \<open>clock\<close> is the time that \<^verbatim>\<open>new Date()\<close> and \<^verbatim>\<open>Date.now()\<close> read while the stats are built
  (one reading for all of them); \<open>math_random k\<close> is the \<open>k\<close>-th \<^verbatim>\<open>Math.random()\<close> of the call;
  \<open>calculateResetInfo\<close> is what \<^verbatim>\<open>resetTimeService.calculateResetInfo()\<close> returns
  (\<^verbatim>\<open>resetTimeService.ts\<close> is not among the sources; the value is a parameter); the two
  responses are the outcomes of the two requests.
\<close>

record call_env =
  now :: int
  clock :: int
  math_random :: "nat \<Rightarrow> real"
  calculateResetInfo :: ResetTimeInfo
  quotaResponse :: "ZaiQuotaResponse fetch_result"
  modelUsageResponse :: "ZaiModelUsageResponse fetch_result"

subsection \<open>\<^verbatim>\<open>ZAIService.calculatePredictionInfo\<close> and \<^verbatim>\<open>detectPlanFromLimit\<close>\<close>

definition calculatePredictionInfo ::
  "platform \<Rightarrow> call_env \<Rightarrow> real \<Rightarrow> real \<Rightarrow> VelocityInfo \<Rightarrow> ResetTimeInfo \<Rightarrow> error + PredictionInfo"
  where
  "calculatePredictionInfo P env tokensUsed' tokenLimit' velocity' resetInfo' =
     (let tokensRemaining = max 0 (tokenLimit' - tokensUsed');
          confidence =
            (if current velocity' > 0 \<and> average24h velocity' > 0
             then (if \<bar>trendPercent velocity'\<bar> > 50 then min 95 (50 + 30) - 20 else min 95 (50 + 30))
             else 50);
          hoursRemaining = tokensRemaining / current velocity';
          daysRemaining = (if current velocity' > 0 then hoursRemaining / 24 else 0);
          hoursUntilReset = timeUntilReset resetInfo' / (1000 * 60 * 60);
          recommendedDailyLimit =
            (if hoursUntilReset > 24 then Math_floor (tokensRemaining / (hoursUntilReset / 24))
             else tokensRemaining);
          onTrackForReset = (tokensRemaining > 0 \<and> daysRemaining \<ge> hoursUntilReset / 24)
      in case (if current velocity' > 0
               then map_sum id Some
                      (toISOString P (new_Date (real_of_int (clock env) + hoursRemaining * 60 * 60 * 1000)))
               else Inr None) of
           Inl e \<Rightarrow> Inl e
         | Inr depletionTime' \<Rightarrow>
             Inr \<lparr> depletionTime = depletionTime',
                   confidence = Math_round confidence,
                   daysRemaining = Math_round (daysRemaining * 10) / 10,
                   recommendedDailyLimit = recommendedDailyLimit,
                   onTrackForReset = onTrackForReset \<rparr>)"

definition detectPlanFromLimit :: "real \<Rightarrow> plan_name" where
  "detectPlanFromLimit tokenLimit' =
     (if tokenLimit' \<le> 7000 then Pro
      else if tokenLimit' \<le> 35000 then Max5
      else if tokenLimit' \<le> 140000 then Max20
      else Custom)"

subsection \<open>\<^verbatim>\<open>ZAIService.mapZaiToUsageStats\<close>\<close>

definition getEmptyDailyUsage :: "platform \<Rightarrow> call_env \<Rightarrow> error + DailyUsage" where
  "getEmptyDailyUsage P env =
     (case toISOString P (new_Date (real_of_int (clock env))) of
        Inl e \<Rightarrow> Inl e
      | Inr isoStr \<Rightarrow>
          Inr \<lparr> date = split_first CHR ''T'' isoStr, totalTokens = 0, totalCost = 0, models = [] \<rparr>)"

text \<open>The block under \<^verbatim>\<open>if (quota.nextResetTime)\<close>; the argument is in seconds.\<close>

definition formatTimeRemaining :: "int option \<Rightarrow> string" where
  "formatTimeRemaining timeUntilReset' =
     (case timeUntilReset' of
        None \<Rightarrow> ''< 1m left''
      | Some t \<Rightarrow>
          (let hours = t div (1000 * 60 * 60);
               minutes = (t mod (1000 * 60 * 60)) div (1000 * 60)
           in if t \<le> 0 then ''Reset available''
              else if hours > 0
                then string_of_nat (nat hours) @ ''h '' @ string_of_nat (nat minutes) @ ''m left''
              else if minutes > 0 then string_of_nat (nat minutes) @ ''m left''
              else ''< 1m left''))"

definition actualResetInfo_of :: "call_env \<Rightarrow> real \<Rightarrow> ActualResetInfo" where
  "actualResetInfo_of env nextResetTime' =
     (let nextResetDate = new_Date (nextResetTime' * 1000);
          now' = new_Date (real_of_int (clock env));
          timeUntilReset' =
            (case (nextResetDate, now') of
               (Some t, Some n) \<Rightarrow> Some (max 0 (t - n))
             | _ \<Rightarrow> None)
      in \<lparr> ar_nextResetTime = nextResetDate,
           ar_timeUntilReset = timeUntilReset',
           formattedTimeRemaining = formatTimeRemaining timeUntilReset' \<rparr>)"

text \<open>The two filters of the result: \<^verbatim>\<open>new Date(d.date) >= weekAgo\<close>, with 7 and 30 days.\<close>

definition since_days :: "platform \<Rightarrow> call_env \<Rightarrow> int \<Rightarrow> DailyUsage list \<Rightarrow> DailyUsage list" where
  "since_days P env n dailyUsage =
     filter (\<lambda>d. date_ge (parseDate P (date d))
                   (Option.bind (new_Date (real_of_int (clock env))) (\<lambda>t. daysBefore P t n)))
       dailyUsage"

definition mapZaiToUsageStats ::
  "platform \<Rightarrow> call_env \<Rightarrow> ZaiQuotaLimit \<Rightarrow> ZaiModelUsageResponse \<Rightarrow> error + UsageStats" where
  "mapZaiToUsageStats P env quota modelUsage =
     (case data modelUsage of
        None \<Rightarrow> Inl TypeError
      | Some d \<Rightarrow>
         (let tokensUsed = currentValue quota;
              tokenLimit = usage quota;
              tokensRemaining = remaining quota;
              percentageUsed = percentage quota;
              velocity = calculateVelocityFromModelUsage d;
              resetInfo = calculateResetInfo env;
              actualResetInfo =
                (case q_nextResetTime quota of
                   None \<Rightarrow> None
                 | Some t \<Rightarrow> if t = 0 then None else Some (actualResetInfo_of env t))
          in case calculatePredictionInfo P env tokensUsed tokenLimit velocity resetInfo of
               Inl e \<Rightarrow> Inl e
             | Inr prediction' \<Rightarrow>
                (let dailyUsage = mapHourlyToDailyUsage P d in
                 case toISOString P (new_Date (real_of_int (clock env))) of
                   Inl e \<Rightarrow> Inl e
                 | Inr isoStr \<Rightarrow>
                    (case (case find (\<lambda>d. date d = split_first CHR ''T'' isoStr) dailyUsage of
                             Some todayData \<Rightarrow> Inr todayData
                           | None \<Rightarrow> getEmptyDailyUsage P env) of
                       Inl e \<Rightarrow> Inl e
                     | Inr todayData \<Rightarrow>
                         Inr \<lparr> today = todayData,
                               thisWeek = since_days P env 7 dailyUsage,
                               thisMonth = since_days P env 30 dailyUsage,
                               burnRate = current velocity,
                               velocity = velocity,
                               prediction = prediction',
                               resetInfo = resetInfo,
                               actualResetInfo = actualResetInfo,
                               predictedDepleted = depletionTime prediction',
                               currentPlan = detectPlanFromLimit tokenLimit,
                               tokenLimit = tokenLimit,
                               tokensUsed = tokensUsed,
                               tokensRemaining = tokensRemaining,
                               percentageUsed = percentageUsed \<rparr>))))"

subsection \<open>\<^verbatim>\<open>ZAIService.getMockStats\<close>\<close>

text \<open>
  The loop of \<^verbatim>\<open>generateMockDailyData\<close>, \<open>i\<close> from \<open>days - 1\<close> down to 0: the third argument
  is the index of the next \<^verbatim>\<open>Math.random()\<close>, the fourth is \<open>i + 1\<close>.
\<close>

fun generateMockDailyData_loop ::
  "platform \<Rightarrow> call_env \<Rightarrow> nat \<Rightarrow> nat \<Rightarrow> DailyUsage list \<Rightarrow> error + DailyUsage list" where
  "generateMockDailyData_loop P env k 0 result = Inr result"
| "generateMockDailyData_loop P env k (Suc i) result =
     (case Option.bind (new_Date (real_of_int (clock env)))
             (\<lambda>t. new_Date (real_of_int (t - int i * 24 * 60 * 60 * 1000))) of
        None \<Rightarrow> Inl RangeError
      | Some t \<Rightarrow>
          generateMockDailyData_loop P env (Suc k) i
            (result @ [\<lparr> date = split_first CHR ''T'' (isoString P t),
                          totalTokens = Math_floor (math_random env k * 2000) + 500,
                          totalCost = 0,
                          models = [] \<rparr>]))"

definition generateMockDailyData ::
  "platform \<Rightarrow> call_env \<Rightarrow> nat \<Rightarrow> nat \<Rightarrow> error + DailyUsage list" where
  "generateMockDailyData P env k days = generateMockDailyData_loop P env k days []"

definition getMockStats :: "platform \<Rightarrow> call_env \<Rightarrow> error + UsageStats" where
  "getMockStats P env =
     (case toISOString P (new_Date (real_of_int (clock env))) of
        Inl e \<Rightarrow> Inl e
      | Inr isoStr \<Rightarrow>
     (let today' = split_first CHR ''T'' isoStr;
          tokensUsed = 25000;
          tokenLimit = 40000000;
          velocity = \<lparr> current = 120, average24h = 100, average7d = 90, trend = increasing,
                       trendPercent = 20, peakHour = 14, isAccelerating = True \<rparr>
      in case toISOString P (new_Date (real_of_int (clock env) + 138 * 60 * 60 * 1000)) of
           Inl e \<Rightarrow> Inl e
         | Inr depletion \<Rightarrow>
        (let prediction = \<lparr> depletionTime = Some depletion, confidence = 85,
                             daysRemaining = 575 / 100, recommendedDailyLimit = 6500,
                             onTrackForReset = True \<rparr>;
             resetInfo = calculateResetInfo env
         in case generateMockDailyData P env 0 7 of
              Inl e \<Rightarrow> Inl e
            | Inr week \<Rightarrow>
           (case generateMockDailyData P env 7 30 of
              Inl e \<Rightarrow> Inl e
            | Inr month \<Rightarrow>
                Inr \<lparr> today = \<lparr> date = today', totalTokens = 1200, totalCost = 0, models = [] \<rparr>,
                      thisWeek = week,
                      thisMonth = month,
                      burnRate = current velocity,
                      velocity = velocity,
                      prediction = prediction,
                      resetInfo = resetInfo,
                      actualResetInfo = None,
                      predictedDepleted = depletionTime prediction,
                      currentPlan = Custom,
                      tokenLimit = tokenLimit,
                      tokensUsed = tokensUsed,
                      tokensRemaining = tokenLimit - tokensUsed,
                      percentageUsed = (tokensUsed / tokenLimit) * 100 \<rparr>))))"

subsection \<open>\<^verbatim>\<open>ZAIService.getUsageStats\<close>\<close>

text \<open>
  An \<^verbatim>\<open>async\<close> function runs synchronously up to its first \<^verbatim>\<open>await\<close> and continues when the
  awaited promise settles. \<^verbatim>\<open>getUsageStats\<close> has one \<^verbatim>\<open>await\<close>, on
  \<^verbatim>\<open>Promise.all([this.fetchQuotaLimit(), this.fetchModelUsage()])\<close>: both calls of the array run
  to their own \<^verbatim>\<open>await fetch(...)\<close> before \<^verbatim>\<open>Promise.all\<close> is called, so both requests are
  issued before the function suspends. \<open>getUsageStats_start\<close> is the part before the
  \<^verbatim>\<open>await\<close>: it returns, or it suspends with the requests it has issued.
  \<open>getUsageStats_resume\<close> is the part after, on the state of the service at that moment.
\<close>

datatype endpoint = QuotaLimit | ModelUsage

datatype 'a started = Returned 'a | Awaiting "endpoint list"

text \<open>
  The \<^verbatim>\<open>catch\<close> of \<^verbatim>\<open>getUsageStats\<close>: the error is logged and dropped.
\<close>

definition getUsageStats_catch ::
  "platform \<Rightarrow> call_env \<Rightarrow> ZAIService \<Rightarrow> error \<Rightarrow> error + UsageStats" where
  "getUsageStats_catch P env s e =
     (case cachedStats s of
        Some cached \<Rightarrow> Inr cached
      | None \<Rightarrow> getMockStats P env)"

definition cache_fresh :: "call_env \<Rightarrow> ZAIService \<Rightarrow> bool" where
  "cache_fresh env s \<longleftrightarrow> cachedStats s \<noteq> None \<and> now env - lastUpdate s < CACHE_DURATION"

definition getUsageStats_start ::
  "platform \<Rightarrow> call_env \<Rightarrow> ZAIService \<Rightarrow> (error + UsageStats) started" where
  "getUsageStats_start P env s =
     (if cache_fresh env s then Returned (Inr (the (cachedStats s)))
      else if apiKey s = []
        then Returned (case getMockStats P env of
                         Inl e \<Rightarrow> getUsageStats_catch P env s e
                       | Inr mock \<Rightarrow> Inr mock)
      else Awaiting [QuotaLimit, ModelUsage])"

text \<open>
  \<^verbatim>\<open>Promise.all\<close> of the two calls: it rejects as soon as one of them rejects. When both
  reject, which error it carries depends on which response arrives first; the \<^verbatim>\<open>catch\<close> does
  not look at the error, and the model takes the first of the array.
\<close>

definition Promise_all :: "error + 'a \<Rightarrow> error + 'b \<Rightarrow> error + ('a \<times> 'b)" where
  "Promise_all a b =
     (case a of
        Inl e \<Rightarrow> Inl e
      | Inr x \<Rightarrow> (case b of Inl e \<Rightarrow> Inl e | Inr y \<Rightarrow> Inr (x, y)))"

definition getUsageStats_resume ::
  "platform \<Rightarrow> call_env \<Rightarrow> ZAIService \<Rightarrow> (error + UsageStats) \<times> ZAIService" where
  "getUsageStats_resume P env s =
     (case Promise_all (fetchQuotaLimit (quotaResponse env))
                       (fetchModelUsage (modelUsageResponse env)) of
        Inl e \<Rightarrow> (getUsageStats_catch P env s e, s)
      | Inr (quotaData, modelUsageData) \<Rightarrow>
          (let s1 = s\<lparr> lastQuotaData := Some quotaData,
                       lastModelUsageData := Some modelUsageData \<rparr>
           in case mapZaiToUsageStats P env quotaData modelUsageData of
                Inl e \<Rightarrow> (getUsageStats_catch P env s1 e, s1)
              | Inr stats \<Rightarrow>
                  (Inr stats, s1\<lparr> cachedStats := Some stats, lastUpdate := now env \<rparr>)))"

text \<open>
  A call with nothing else running while it is suspended: the result (\<open>Inl\<close> when the promise
  rejects), the service afterwards and the requests issued.
\<close>

definition getUsageStats ::
  "platform \<Rightarrow> call_env \<Rightarrow> ZAIService \<Rightarrow> (error + UsageStats) \<times> ZAIService \<times> endpoint list" where
  "getUsageStats P env s =
     (case getUsageStats_start P env s of
        Returned r \<Rightarrow> (r, s, [])
      | Awaiting requests \<Rightarrow>
          (case getUsageStats_resume P env s of (r, s') \<Rightarrow> (r, s', requests)))"

text \<open>The number of requests of a call that are outstanding while it is suspended.\<close>

definition in_flight :: "'a started \<Rightarrow> nat" where
  "in_flight st = (case st of Returned r \<Rightarrow> 0 | Awaiting requests \<Rightarrow> length requests)"

text \<open>\<^verbatim>\<open>updateConfiguration\<close> clears the cache.\<close>

definition updateConfiguration :: "ZAIService \<Rightarrow> ZAIService" where
  "updateConfiguration s = s\<lparr> cachedStats := None \<rparr>"

subsection \<open>\<^verbatim>\<open>SettingsService\<close>\<close>

text \<open>
  The settings are JavaScript objects whose shape is fixed by a type annotation only, so an
  object is the map of its own properties. The values that a settings file and the defaults
  can hold are the JSON scalars and \<^verbatim>\<open>undefined\<close> (the default of \<^verbatim>\<open>customTokenLimit\<close>).
\<close>

datatype js_value = JUndefined | JNull | JBool bool | JNum real | JStr string

type_synonym js_object = "string \<rightharpoonup> js_value"

text \<open>\<^verbatim>\<open>o.k\<close>: a missing property reads as \<^verbatim>\<open>undefined\<close>.\<close>

definition get_prop :: "js_object \<Rightarrow> string \<Rightarrow> js_value" where
  "get_prop obj k = (case obj k of None \<Rightarrow> JUndefined | Some v \<Rightarrow> v)"

fun truthy :: "js_value \<Rightarrow> bool" where
  "truthy JUndefined = False"
| "truthy JNull = False"
| "truthy (JBool b) = b"
| "truthy (JNum x) = (x \<noteq> 0)"
| "truthy (JStr s) = (s \<noteq> [])"

text \<open>\<^verbatim>\<open>a || b\<close>.\<close>

definition js_or :: "js_value \<Rightarrow> js_value \<Rightarrow> js_value" where
  "js_or a b = (if truthy a then a else b)"

text \<open>
  \<^verbatim>\<open>this.defaultSettings\<close>, as the constructor builds it; the argument is the time zone
  that \<^verbatim>\<open>Intl.DateTimeFormat().resolvedOptions().timeZone\<close> detects.
\<close>

definition defaultSettings :: "string \<Rightarrow> js_object" where
  "defaultSettings detectedTimezone =
     [''timezone'' \<mapsto> JStr detectedTimezone,
      ''resetHour'' \<mapsto> JNum 0,
      ''plan'' \<mapsto> JStr ''auto'',
      ''customTokenLimit'' \<mapsto> JUndefined,
      ''menuBarDisplayMode'' \<mapsto> JStr ''alternate'',
      ''menuBarCostSource'' \<mapsto> JStr ''today'',
      ''dataSource'' \<mapsto> JStr ''ccusage'']"

text \<open>The fields of \<^verbatim>\<open>AppSettings\<close> without a question mark.\<close>

definition required_fields :: "string list" where
  "required_fields =
     [''timezone'', ''resetHour'', ''plan'', ''menuBarDisplayMode'', ''menuBarCostSource'',
      ''dataSource'']"

text \<open>
  The settings file as \<^verbatim>\<open>loadSettings\<close> meets it: \<^verbatim>\<open>existsSync\<close> is false, or
  \<^verbatim>\<open>readFileSync\<close> throws, or it returns the contents. \<open>JSON_parse\<close> is a parameter: \<open>None\<close>
  when \<^verbatim>\<open>JSON.parse\<close> throws, otherwise the own properties of the parsed value, which is what
  the spread \<^verbatim>\<open>...settings\<close> copies (none for \<^verbatim>\<open>null\<close>, a number or a boolean).
\<close>

datatype settings_file = Missing | Unreadable | Contents string

datatype settings_error = ReadError | SyntaxError

text \<open>
  The \<^verbatim>\<open>try\<close> block: \<open>Inl\<close> is an exception, \<open>Inr None\<close> is leaving the block without a
  \<^verbatim>\<open>return\<close>. The spread \<^verbatim>\<open>{...defaults, ...settings}\<close> is the map override.
\<close>

definition loadSettings_try ::
  "(string \<Rightarrow> js_object option) \<Rightarrow> js_object \<Rightarrow> settings_file \<Rightarrow>
     settings_error + js_object option" where
  "loadSettings_try JSON_parse defaults file =
     (case file of
        Missing \<Rightarrow> Inr None
      | Unreadable \<Rightarrow> Inl ReadError
      | Contents data' \<Rightarrow>
          (case JSON_parse data' of
             None \<Rightarrow> Inl SyntaxError
           | Some settings \<Rightarrow> Inr (Some (defaults ++ settings))))"

text \<open>The whole function: \<open>Inl\<close> would be a rejection of the promise it returns.\<close>

definition loadSettings ::
  "(string \<Rightarrow> js_object option) \<Rightarrow> js_object \<Rightarrow> settings_file \<Rightarrow>
     settings_error + js_object" where
  "loadSettings JSON_parse defaults file =
     (case loadSettings_try JSON_parse defaults file of
        Inl e \<Rightarrow> Inr defaults
      | Inr (Some merged) \<Rightarrow> Inr merged
      | Inr None \<Rightarrow> Inr defaults)"

subsection \<open>\<^verbatim>\<open>CCSevaApp\<close> of \<^verbatim>\<open>main.ts\<close>: the choice of the service\<close>

text \<open>
  The three fields that \<^verbatim>\<open>initialize\<close> sets from the settings. The tray, the window and
  the timers are outside the model.
\<close>

record CCSevaApp =
  menuBarDisplayMode :: js_value
  menuBarCostSource :: js_value
  dataSource :: js_value

datatype service = ccusageService | zaiService

definition getActiveService :: "CCSevaApp \<Rightarrow> service" where
  "getActiveService app = (if dataSource app = JStr ''zai'' then zaiService else ccusageService)"

text \<open>The application as the field initialisers leave it.\<close>

definition new_CCSevaApp :: CCSevaApp where
  "new_CCSevaApp =
     \<lparr> menuBarDisplayMode = JStr ''alternate'',
       menuBarCostSource = JStr ''today'',
       dataSource = JStr ''ccusage'' \<rparr>"

text \<open>
  \<^verbatim>\<open>initialize\<close>, up to the three assignments after \<^verbatim>\<open>await this.settingsService.loadSettings()\<close>.
\<close>

definition initialize ::
  "(string \<Rightarrow> js_object option) \<Rightarrow> string \<Rightarrow> settings_file \<Rightarrow> CCSevaApp \<Rightarrow>
     settings_error + CCSevaApp" where
  "initialize JSON_parse detectedTimezone file app =
     (case loadSettings JSON_parse (defaultSettings detectedTimezone) file of
        Inl e \<Rightarrow> Inl e
      | Inr settings \<Rightarrow>
          Inr (app\<lparr> menuBarDisplayMode :=
                      js_or (get_prop settings ''menuBarDisplayMode'') (JStr ''alternate''),
                    menuBarCostSource :=
                      js_or (get_prop settings ''menuBarCostSource'') (JStr ''today''),
                    dataSource := js_or (get_prop settings ''dataSource'') (JStr ''ccusage'') \<rparr>))"

text \<open>
  The requests that read usage data, and the services each one calls, in order: a tick of the
  polling timer and the initial update run \<^verbatim>\<open>updateTrayTitle\<close>; the handler of
  \<^verbatim>\<open>get-usage-stats\<close> calls \<^verbatim>\<open>getUsageStats\<close>; the handler of \<^verbatim>\<open>refresh-data\<close> calls
  \<^verbatim>\<open>getUsageStats\<close> and then \<^verbatim>\<open>updateTrayTitle\<close>.
  (The handler of \<^verbatim>\<open>save-settings\<close> reaches a service through \<^verbatim>\<open>updateTrayTitle\<close> only.)
\<close>

datatype request = PollTick | InitialUpdate | GetUsageStatsRequest | RefreshDataRequest

definition updateTrayTitle :: "CCSevaApp \<Rightarrow> service list" where
  "updateTrayTitle app = [getActiveService app]"

fun services_called :: "CCSevaApp \<Rightarrow> request \<Rightarrow> service list" where
  "services_called app PollTick = updateTrayTitle app"
| "services_called app InitialUpdate = updateTrayTitle app"
| "services_called app GetUsageStatsRequest = [getActiveService app]"
| "services_called app RefreshDataRequest = [getActiveService app] @ updateTrayTitle app"

text \<open>A parser for the examples: it knows two files.\<close>

definition example_parse :: "string \<Rightarrow> js_object option" where
  \<open>example_parse s =
     (if s = ''{"dataSource":"zai","resetHour":5}''
        then Some [''dataSource'' \<mapsto> JStr ''zai'', ''resetHour'' \<mapsto> JNum 5]
      else if s = ''{"plan":"Pro"}'' then Some [''plan'' \<mapsto> JStr ''Pro'']
      else None)\<close>

text \<open>The keys of the map after one more hour string: the loop body on keys alone.\<close>

definition add_date :: "string list \<Rightarrow> string \<Rightarrow> string list" where
  "add_date ks hourStr =
     (let datePart = split_first CHR '' '' hourStr in
      if datePart = [] \<or> datePart \<in> set ks then ks else ks @ [datePart])"

text \<open>Responses for the examples.\<close>

definition example_usage :: ZaiModelUsageData where
  "example_usage =
     \<lparr> totalUsage = Some \<lparr> totalModelCallCount = 3, totalTokensUsage = 7 \<rparr>,
       x_time = Some [''2024-03-11 00:00:00'', ''2024-03-10 23:00:00'', [],
                      '' 12:00:00'', ''2024-03-11 01:00:00''] \<rparr>"

definition negative_usage :: ZaiModelUsageData where
  "negative_usage =
     \<lparr> totalUsage = Some \<lparr> totalModelCallCount = 1, totalTokensUsage = - 5 \<rparr>,
       x_time = Some [''2024-03-10 23:00:00''] \<rparr>"

subsection \<open>Predicates of the statements\<close>

text \<open>
  The clock readings for which every date of \<^verbatim>\<open>getMockStats\<close> is valid: the reading, the
  138 hours after it and the 29 days before it lie within 8.64e15 milliseconds of the epoch.
  Every reading of a real clock does.
\<close>

definition clock_in_range :: "call_env \<Rightarrow> bool" where
  "clock_in_range env \<longleftrightarrow>
     - 8640000000000000 + 29 * 24 * 60 * 60 * 1000 \<le> clock env \<and>
     clock env + 138 * 60 * 60 * 1000 \<le> 8640000000000000"

text \<open>
  The two identities of a usage snapshot. The division is the one of the real numbers, so
  the first is stated together with a limit other than 0.
\<close>

definition percentage_identity :: "UsageStats \<Rightarrow> bool" where
  "percentage_identity st \<longleftrightarrow> percentageUsed st = tokensUsed st / tokenLimit st * 100"

definition remaining_identity :: "UsageStats \<Rightarrow> bool" where
  "remaining_identity st \<longleftrightarrow> tokensRemaining st = tokenLimit st - tokensUsed st"

definition usage_identities :: "UsageStats \<Rightarrow> bool" where
  "usage_identities st \<longleftrightarrow> tokenLimit st \<noteq> 0 \<and> percentage_identity st \<and> remaining_identity st"

text \<open>The same identities on the quota entry of a response.\<close>

definition quota_identities :: "ZaiQuotaLimit \<Rightarrow> bool" where
  "quota_identities q \<longleftrightarrow>
     usage q \<noteq> 0 \<and> percentage q = currentValue q / usage q * 100 \<and>
     remaining q = usage q - currentValue q"

definition usage_numbers :: "UsageStats \<Rightarrow> real \<times> real \<times> real \<times> real" where
  "usage_numbers st = (tokensUsed st, tokenLimit st, tokensRemaining st, percentageUsed st)"

text \<open>A settings file that provides the field \<^verbatim>\<open>dataSource\<close>.\<close>

definition provides_dataSource :: "(string \<Rightarrow> js_object option) \<Rightarrow> settings_file \<Rightarrow> bool" where
  "provides_dataSource JSON_parse file =
     (case file of
        Contents data' \<Rightarrow>
          (case JSON_parse data' of Some settings \<Rightarrow> settings ''dataSource'' \<noteq> None | None \<Rightarrow> False)
      | _ \<Rightarrow> False)"

subsection \<open>Values for the examples\<close>

definition example_reset :: ResetTimeInfo where
  "example_reset =
     \<lparr> nextResetTime = ''2024-04-01T00:00:00.000Z'', timeUntilReset = 1857600000,
       resetHour = 0, timezone = ''UTC'', percentUntilReset = 30, daysInCycle = 31,
       daysSinceReset = 9 \<rparr>"

definition example_quota :: ZaiQuotaLimit where
  "example_quota =
     \<lparr> type = ''TOKENS_LIMIT'', unit = 3, number = 5, usage = 40000000,
       currentValue = 10000000, remaining = 30000000, percentage = 25,
       q_nextResetTime = Some 1710079200 \<rparr>"

text \<open>A quota entry whose percentage is rounded to a whole number.\<close>

definition rounded_quota :: ZaiQuotaLimit where
  "rounded_quota =
     \<lparr> type = ''TOKENS_LIMIT'', unit = 3, number = 5, usage = 40000000,
       currentValue = 10300000, remaining = 29700000, percentage = 26,
       q_nextResetTime = None \<rparr>"

definition quota_body :: "ZaiQuotaLimit \<Rightarrow> ZaiQuotaResponse" where
  "quota_body q =
     \<lparr> q_code = 200, msg = ''ok'',
       q_data = Some \<lparr> limits = Some [q\<lparr> type := ''TIME_LIMIT'' \<rparr>, q] \<rparr>,
       q_success = True \<rparr>"

definition example_env :: call_env where
  "example_env =
     \<lparr> now = 1710072000000, clock = 1710072000500, math_random = (\<lambda>k. 1 / 2),
       calculateResetInfo = example_reset,
       quotaResponse = Responded 200 (Some (quota_body example_quota)),
       modelUsageResponse =
         Responded 200 (Some \<lparr> code = 200, data = Some example_usage, success = True \<rparr>) \<rparr>"

definition example_service :: ZAIService where
  "example_service =
     \<lparr> apiKey = ''key'', cachedStats = None, lastUpdate = 0, lastQuotaData = None,
       lastModelUsageData = None \<rparr>"

text \<open>
  The stats that \<open>example_env\<close> maps to on \<open>example_platform\<close>, the service that has cached
  them, a later call whose quota request is answered with status 429, and a call within 30
  seconds of the first.
\<close>

definition example_stats :: UsageStats where
  "example_stats =
     \<lparr> today = \<lparr> date = ''2024-03-10'', totalTokens = 3, totalCost = 0, models = [] \<rparr>,
       thisWeek = [\<lparr> date = ''2024-03-10'', totalTokens = 3, totalCost = 0, models = [] \<rparr>],
       thisMonth = [\<lparr> date = ''2024-03-10'', totalTokens = 3, totalCost = 0, models = [] \<rparr>],
       burnRate = 7,
       velocity = \<lparr> current = 7, average24h = 7, average7d = 6, trend = stable,
                    trendPercent = 0, peakHour = 14, isAccelerating = False \<rparr>,
       prediction = \<lparr> depletionTime = Some ''2024-03-10T12:00:00.000Z'', confidence = 80,
                      daysRemaining = 892857 / 5, recommendedDailyLimit = 1395348,
                      onTrackForReset = True \<rparr>,
       resetInfo = example_reset,
       actualResetInfo = Some \<lparr> ar_nextResetTime = Some 1710079200000,
                                ar_timeUntilReset = Some 7199500,
                                formattedTimeRemaining = ''1h 59m left'' \<rparr>,
       predictedDepleted = Some ''2024-03-10T12:00:00.000Z'',
       currentPlan = Custom,
       tokenLimit = 40000000,
       tokensUsed = 10000000,
       tokensRemaining = 30000000,
       percentageUsed = 25 \<rparr>"

definition cached_service :: ZAIService where
  "cached_service =
     \<lparr> apiKey = ''key'', cachedStats = Some example_stats, lastUpdate = 1710072000000,
       lastQuotaData = Some example_quota,
       lastModelUsageData = Some \<lparr> code = 200, data = Some example_usage, success = True \<rparr> \<rparr>"

definition failing_env :: call_env where
  "failing_env =
     example_env\<lparr> now := 1710072060000, clock := 1710072060500,
                  quotaResponse := Responded 429 None \<rparr>"

definition soon_env :: call_env where
  "soon_env =
     example_env\<lparr> now := 1710072029999, clock := 1710072029999,
                  quotaResponse := Rejected, modelUsageResponse := Rejected \<rparr>"

text \<open>A call whose quota entry has the rounded percentage.\<close>

definition rounded_env :: call_env where
  "rounded_env = example_env\<lparr> quotaResponse := Responded 200 (Some (quota_body rounded_quota)) \<rparr>"





section \<open>Auxiliary facts\<close>

subsection \<open>Sorting\<close>

lemma set_sort_insert: "set (sort_insert cmp x ys) = insert x (set ys)"
  by (induction ys) auto

lemma set_array_sort: "set (array_sort cmp xs) = set xs"
  by (induction xs) (simp_all add: array_sort_def set_sort_insert)

lemma length_sort_insert: "length (sort_insert cmp x ys) = Suc (length ys)"
  by (induction ys) auto

lemma length_array_sort: "length (array_sort cmp xs) = length xs"
  by (induction xs) (simp_all add: array_sort_def length_sort_insert)

lemma distinct_map_sort_insert:
  "distinct (map f (sort_insert cmp x ys)) \<longleftrightarrow> f x \<notin> f ` set ys \<and> distinct (map f ys)"
  by (induction ys) (auto simp: set_sort_insert)

lemma distinct_map_array_sort:
  "distinct (map f (array_sort cmp xs)) \<longleftrightarrow> distinct (map f xs)"
  by (induction xs)
    (simp_all add: array_sort_def distinct_map_sort_insert set_array_sort[unfolded array_sort_def])

lemma sorted_sort_insert:
  assumes "consistent_comparator cmp" "sorted_wrt (\<lambda>a b. cmp a b \<le> 0) ys"
  shows "sorted_wrt (\<lambda>a b. cmp a b \<le> 0) (sort_insert cmp x ys)"
  using assms(2)
proof (induction ys)
  case Nil
  then show ?case by simp
next
  case (Cons y ys)
  have tot: "\<And>a b. cmp a b \<le> 0 \<or> cmp b a \<le> 0"
    and tr: "\<And>a b c. cmp a b \<le> 0 \<Longrightarrow> cmp b c \<le> 0 \<Longrightarrow> cmp a c \<le> 0"
    using assms(1) unfolding consistent_comparator_def by blast+
  show ?case
  proof (cases "cmp x y \<le> 0")
    case True
    with Cons.prems tr show ?thesis by auto
  next
    case False
    with tot have "cmp y x \<le> 0" by blast
    with False Cons show ?thesis by (auto simp: set_sort_insert)
  qed
qed

lemma sorted_array_sort:
  "consistent_comparator cmp \<Longrightarrow> sorted_wrt (\<lambda>a b. cmp a b \<le> 0) (array_sort cmp xs)"
  by (induction xs) (simp_all add: array_sort_def sorted_sort_insert)

lemma consistent_code_unit_compare: "consistent_comparator code_unit_compare"
  unfolding consistent_comparator_def code_unit_compare_def
  by (auto split: if_splits)

subsection \<open>The daily map\<close>

lemma aggregate_hour_keys:
  "aggregate_hour (map (\<lambda>k. (k, newDaily k)) ks) h = map (\<lambda>k. (k, newDaily k)) (add_date ks h)"
  by (auto simp: aggregate_hour_def add_date_def Let_def map_of_eq_None_iff image_iff newDaily_def)

lemma foldl_aggregate_hour:
  "foldl aggregate_hour (map (\<lambda>k. (k, newDaily k)) ks) hs =
     map (\<lambda>k. (k, newDaily k)) (foldl add_date ks hs)"
  by (induction hs arbitrary: ks) (simp_all add: aggregate_hour_keys)

lemma set_foldl_add_date:
  "set (foldl add_date ks hs) = set ks \<union> {s \<in> split_first CHR '' '' ` set hs. s \<noteq> []}"
  by (induction hs arbitrary: ks) (auto simp: add_date_def Let_def)

lemma distinct_foldl_add_date:
  "distinct ks \<Longrightarrow> distinct (foldl add_date ks hs)"
  by (induction hs arbitrary: ks) (auto simp: add_date_def Let_def)

lemma keys_set: "set (foldl add_date [] (hourlyData_of d)) = set (response_dates d)"
  by (auto simp: set_foldl_add_date response_dates_def)

lemma mapHourly_unfold:
  "mapHourlyToDailyUsage P d =
     array_sort (\<lambda>a b. localeCompare P (date a) (date b))
       (distribute_tokens (totalTokens_of d) (map newDaily (foldl add_date [] (hourlyData_of d))))"
  using foldl_aggregate_hour[of "[]" "hourlyData_of d"]
  by (simp add: mapHourlyToDailyUsage_def Let_def comp_def)

lemma map_date_distribute: "map date (distribute_tokens t (map newDaily ks)) = ks"
  by (simp add: distribute_tokens_def Let_def comp_def newDaily_def)

lemma length_distribute: "length (distribute_tokens t xs) = length xs"
  by (simp add: distribute_tokens_def Let_def)

lemma distribute_entries:
  "e \<in> set (distribute_tokens t (map newDaily ks)) \<Longrightarrow>
     totalCost e = 0 \<and> models e = [] \<and>
     totalTokens e = (if t > 0 then Math_floor (t / real (length ks)) else 0)"
  by (auto simp: distribute_tokens_def Let_def newDaily_def split: if_splits)

subsection \<open>The service\<close>

lemma new_Date_of_int:
  "\<bar>n\<bar> \<le> 8640000000000000 \<Longrightarrow> new_Date (real_of_int n) = Some n"
  by (simp add: new_Date_def) linarith

lemma new_Date_of_int_add:
  "\<bar>n + m\<bar> \<le> 8640000000000000 \<Longrightarrow> new_Date (real_of_int n + real_of_int m) = Some (n + m)"
  using new_Date_of_int[of "n + m"] by simp

lemma mock_loop_returns:
  assumes "clock_in_range env" "n \<le> 30"
  shows "\<exists>r. generateMockDailyData_loop P env k n acc = Inr r"
  using assms(2)
proof (induction n arbitrary: k acc)
  case 0
  then show ?case by simp
next
  case (Suc n)
  have c: "\<bar>clock env\<bar> \<le> 8640000000000000"
    using assms(1) unfolding clock_in_range_def by linarith
  have d: "\<bar>clock env - int n * 24 * 60 * 60 * 1000\<bar> \<le> 8640000000000000"
    using assms(1) Suc.prems unfolding clock_in_range_def by linarith
  from Suc.prems have "n \<le> 30" by simp
  then show ?case
    using Suc.IH new_Date_of_int[OF c] new_Date_of_int[OF d] by simp
qed

lemma getMockStats_returns:
  assumes "clock_in_range env"
  shows "\<exists>mock. getMockStats P env = Inr mock"
proof -
  have c: "\<bar>clock env\<bar> \<le> 8640000000000000"
    using assms unfolding clock_in_range_def by linarith
  have d: "\<bar>clock env + 496800000\<bar> \<le> 8640000000000000"
    using assms unfolding clock_in_range_def by linarith
  obtain week where w: "generateMockDailyData P env 0 7 = Inr week"
    using mock_loop_returns[OF assms, of 7 P 0 "[]"] by (auto simp: generateMockDailyData_def)
  obtain month where m: "generateMockDailyData P env 7 30 = Inr month"
    using mock_loop_returns[OF assms, of 30 P 7 "[]"] by (auto simp: generateMockDailyData_def)
  have "new_Date (real_of_int (clock env) + 138 * 60 * 60 * 1000) = Some (clock env + 496800000)"
    using new_Date_of_int_add[OF d] by simp
  then show ?thesis
    by (simp add: getMockStats_def toISOString_def new_Date_of_int[OF c] w m Let_def)
qed

lemma getMockStats_numbers:
  assumes "getMockStats P env = Inr mock"
  shows "usage_numbers mock = (25000, 40000000, 39975000, 1 / 16)"
  using assms
  by (auto simp: getMockStats_def usage_numbers_def Let_def split: sum.splits)

lemma mapZai_numbers:
  assumes "mapZaiToUsageStats P env q u = Inr st"
  shows "usage_numbers st = (currentValue q, usage q, remaining q, percentage q)"
  using assms
  by (auto simp: mapZaiToUsageStats_def usage_numbers_def Let_def split: sum.splits option.splits)

lemma start_Awaiting_iff:
  "getUsageStats_start P env s = Awaiting rs \<longleftrightarrow>
     \<not> cache_fresh env s \<and> apiKey s \<noteq> [] \<and> rs = [QuotaLimit, ModelUsage]"
  by (auto simp: getUsageStats_start_def)

lemma start_Returned_iff:
  "(\<exists>r. getUsageStats_start P env s = Returned r) \<longleftrightarrow> cache_fresh env s \<or> apiKey s = []"
  by (auto simp: getUsageStats_start_def)

lemma resume_on_failure:
  assumes "Promise_all (fetchQuotaLimit (quotaResponse env))
             (fetchModelUsage (modelUsageResponse env)) = Inl e"
  shows "getUsageStats_resume P env s = (getUsageStats_catch P env s e, s)"
  using assms by (simp add: getUsageStats_resume_def)

lemma Promise_all_rejects_iff:
  "(\<exists>e. Promise_all a b = Inl e) \<longleftrightarrow> (\<exists>e. a = Inl e) \<or> (\<exists>e. b = Inl e)"
  by (auto simp: Promise_all_def split: sum.splits)

lemma getUsageStats_suspended:
  assumes "getUsageStats_start P env s = Awaiting rs"
  shows "getUsageStats P env s =
           (fst (getUsageStats_resume P env s), snd (getUsageStats_resume P env s), rs)"
  using assms by (simp add: getUsageStats_def split: prod.splits)

lemma example_call:
  "getUsageStats example_platform example_env example_service =
     (Inr example_stats, cached_service, [QuotaLimit, ModelUsage])"
  by code_simp

lemma usage_identities_numbers:
  "usage_identities st \<longleftrightarrow>
     (case usage_numbers st of (used, limit, rem, pct) \<Rightarrow>
        limit \<noteq> 0 \<and> pct = used / limit * 100 \<and> rem = limit - used)"
  by (auto simp: usage_identities_def percentage_identity_def remaining_identity_def
      usage_numbers_def)

lemma mock_identities:
  assumes "getMockStats P env = Inr mock"
  shows "usage_identities mock"
  using getMockStats_numbers[OF assms] by (simp add: usage_identities_numbers)

lemma mapped_identities:
  assumes "mapZaiToUsageStats P env q u = Inr st"
  shows "usage_identities st \<longleftrightarrow> quota_identities q"
  using mapZai_numbers[OF assms] by (simp add: usage_identities_numbers quota_identities_def)

lemma catch_identities:
  assumes "getUsageStats_catch P env s e = Inr st"
    and "\<forall>c. cachedStats s = Some c \<longrightarrow> usage_identities c"
  shows "usage_identities st"
  using assms mock_identities
  by (auto simp: getUsageStats_catch_def split: option.splits)

section \<open>Theorems\<close>

text \<open>
  C1. When a call reaches the requests and the fetch of either endpoint rejects, the call
  does not reject: it returns the cached stats when there are some and the mock stats
  otherwise, and it leaves the service as it was. The same holds on whatever state the
  service has when the call resumes. (The clock reading is a valid date.)
\<close>

theorem fetch_failure_falls_back:
  assumes "getUsageStats_start P env s = Awaiting rs"
    and "(\<exists>e. fetchQuotaLimit (quotaResponse env) = Inl e) \<or>
         (\<exists>e. fetchModelUsage (modelUsageResponse env) = Inl e)"
    and "clock_in_range env"
  shows "\<exists>mock. getMockStats P env = Inr mock
           \<and> fst (getUsageStats P env s) =
               Inr (case cachedStats s of Some cached \<Rightarrow> cached | None \<Rightarrow> mock)
           \<and> fst (snd (getUsageStats P env s)) = s
           \<and> (\<forall>s'. getUsageStats_resume P env s' =
                 (Inr (case cachedStats s' of Some cached \<Rightarrow> cached | None \<Rightarrow> mock), s'))"
proof -
  obtain mock where m: "getMockStats P env = Inr mock"
    using getMockStats_returns[OF assms(3)] by blast
  obtain e where e: "Promise_all (fetchQuotaLimit (quotaResponse env))
             (fetchModelUsage (modelUsageResponse env)) = Inl e"
    using assms(2) Promise_all_rejects_iff by blast
  have r: "getUsageStats_resume P env s' =
             (Inr (case cachedStats s' of Some cached \<Rightarrow> cached | None \<Rightarrow> mock), s')" for s'
    by (simp add: resume_on_failure[OF e] getUsageStats_catch_def m split: option.splits)
  show ?thesis
    using m r by (simp add: getUsageStats_suspended[OF assms(1)])
qed

text \<open>
  The theorem at a call answered with status 429: with the empty cache the mock stats come
  back, with the cached stats (60 seconds old) the cached stats.
\<close>

theorem fetch_failure_falls_back_witness:
  "clock_in_range failing_env
   \<and> fetchQuotaLimit (quotaResponse failing_env) = Inl RateLimitExceeded
   \<and> getUsageStats_start example_platform failing_env example_service
        = Awaiting [QuotaLimit, ModelUsage]
   \<and> fst (getUsageStats example_platform failing_env example_service)
        = getMockStats example_platform failing_env
   \<and> getUsageStats_start example_platform failing_env cached_service
        = Awaiting [QuotaLimit, ModelUsage]
   \<and> fst (getUsageStats example_platform failing_env cached_service) = Inr example_stats"
proof -
  have c: "clock_in_range failing_env"
    by (simp add: clock_in_range_def failing_env_def)
  have f: "fetchQuotaLimit (quotaResponse failing_env) = Inl RateLimitExceeded"
    by (simp add: failing_env_def fetchQuotaLimit_def response_ok_def)
  have s1: "getUsageStats_start example_platform failing_env example_service
              = Awaiting [QuotaLimit, ModelUsage]"
    by (simp add: getUsageStats_start_def cache_fresh_def example_service_def)
  have s2: "getUsageStats_start example_platform failing_env cached_service
              = Awaiting [QuotaLimit, ModelUsage]"
    by (simp add: getUsageStats_start_def cache_fresh_def cached_service_def failing_env_def
        CACHE_DURATION_def)
  have n: "cachedStats example_service = None" by (simp add: example_service_def)
  have k: "cachedStats cached_service = Some example_stats" by (simp add: cached_service_def)
  have a: "fst (getUsageStats example_platform failing_env example_service)
             = getMockStats example_platform failing_env"
    using fetch_failure_falls_back[OF s1 _ c] f n by auto
  have b: "fst (getUsageStats example_platform failing_env cached_service) = Inr example_stats"
    using fetch_failure_falls_back[OF s2 _ c] f k by auto
  from c f s1 s2 a b show ?thesis by simp
qed




text \<open>
  C3 (as amended). The mock stats satisfy both identities. Stats mapped from a response take
  \<open>tokensUsed\<close>, \<open>tokenLimit\<close>, \<open>tokensRemaining\<close> and \<open>percentageUsed\<close> from the fields
  \<open>currentValue\<close>, \<open>usage\<close>, \<open>remaining\<close> and \<open>percentage\<close> of the quota entry without
  recomputing them, so they satisfy the identities exactly when the entry does. Hence, when the
  cached stats (if any) and the quota entry received (if any) satisfy the identities, so do the
  stats that a call returns and the stats that it leaves in the cache.
\<close>

theorem returned_stats_identities:
  "(getMockStats P env = Inr mock \<longrightarrow> usage_identities mock)
   \<and> (mapZaiToUsageStats P env q u = Inr mapped \<longrightarrow>
        usage_numbers mapped = (currentValue q, usage q, remaining q, percentage q)
        \<and> (usage_identities mapped \<longleftrightarrow> quota_identities q))
   \<and> ((\<forall>c. cachedStats s = Some c \<longrightarrow> usage_identities c)
       \<and> (\<forall>q'. fetchQuotaLimit (quotaResponse env) = Inr q' \<longrightarrow> quota_identities q')
      \<longrightarrow> (\<forall>st. fst (getUsageStats P env s) = Inr st \<longrightarrow> usage_identities st)
          \<and> (\<forall>c. cachedStats (fst (snd (getUsageStats P env s))) = Some c \<longrightarrow> usage_identities c))"
proof -
  have inv: "(\<forall>st. fst (getUsageStats P env s) = Inr st \<longrightarrow> usage_identities st)
          \<and> (\<forall>c. cachedStats (fst (snd (getUsageStats P env s))) = Some c \<longrightarrow> usage_identities c)"
    if c: "\<forall>c. cachedStats s = Some c \<longrightarrow> usage_identities c"
      and q: "\<forall>q'. fetchQuotaLimit (quotaResponse env) = Inr q' \<longrightarrow> quota_identities q'"
  proof (cases "getUsageStats_start P env s")
    case (Returned r)
    have "usage_identities st" if "r = Inr st" for st
      using Returned that c mock_identities catch_identities[OF _ c]
      by (auto simp: getUsageStats_start_def cache_fresh_def split: if_splits sum.splits)
    with Returned c show ?thesis by (simp add: getUsageStats_def)
  next
    case (Awaiting rs)
    let ?s1 = "\<lambda>a b. s\<lparr> lastQuotaData := Some a, lastModelUsageData := Some b \<rparr>"
    have c1: "\<forall>c. cachedStats (?s1 a b) = Some c \<longrightarrow> usage_identities c" for a b
      using c by simp
    show ?thesis
    proof (cases "Promise_all (fetchQuotaLimit (quotaResponse env))
                    (fetchModelUsage (modelUsageResponse env))")
      case (Inl e)
      then show ?thesis
        using c catch_identities[OF _ c]
        by (auto simp: getUsageStats_suspended[OF Awaiting] resume_on_failure[OF Inl])
    next
      case (Inr p)
      obtain a b where p: "p = (a, b)" by (cases p)
      from Inr p have fa: "fetchQuotaLimit (quotaResponse env) = Inr a"
        by (auto simp: Promise_all_def split: sum.splits)
      with q have qa: "quota_identities a" by blast
      show ?thesis
      proof (cases "mapZaiToUsageStats P env a b")
        case (Inl e)
        then show ?thesis
          using Inr p c catch_identities[OF _ c1]
          by (auto simp: getUsageStats_suspended[OF Awaiting] getUsageStats_resume_def Let_def)
      next
        case (Inr st)
        with qa have "usage_identities st" by (simp add: mapped_identities)
        with Inr \<open>Promise_all _ _ = Inr p\<close> p show ?thesis
          by (simp add: getUsageStats_suspended[OF Awaiting] getUsageStats_resume_def Let_def)
      qed
    qed
  qed
  show ?thesis
    using inv mock_identities mapped_identities mapZai_numbers by (metis (no_types, lifting))
qed

text \<open>
  The theorem at the example call: the quota entry satisfies the identities, the cache is
  empty, and the stats returned satisfy them.
\<close>

theorem returned_stats_identities_witness:
  "quota_identities example_quota
   \<and> fetchQuotaLimit (quotaResponse example_env) = Inr example_quota
   \<and> cachedStats example_service = None
   \<and> fst (getUsageStats example_platform example_env example_service) = Inr example_stats
   \<and> usage_numbers example_stats = (10000000, 40000000, 30000000, 25)
   \<and> usage_identities example_stats
   \<and> cachedStats cached_service = Some example_stats"
proof -
  have q: "quota_identities example_quota"
    by (simp add: quota_identities_def example_quota_def)
  have f: "fetchQuotaLimit (quotaResponse example_env) = Inr example_quota" by code_simp
  have n: "cachedStats example_service = None" by (simp add: example_service_def)
  have r: "fst (getUsageStats example_platform example_env example_service) = Inr example_stats"
    by (simp add: example_call)
  have u: "usage_numbers example_stats = (10000000, 40000000, 30000000, 25)"
    by (simp add: usage_numbers_def example_stats_def)
  have k: "cachedStats cached_service = Some example_stats" by (simp add: cached_service_def)
  have i: "usage_identities example_stats"
    using returned_stats_identities[of example_platform example_env _ _ _ _ example_service]
      q f n r by simp
  from q f n r u i k show ?thesis by simp
qed

text \<open>
  C3 as stated fails on a response whose percentage is rounded: 10300000 of 40000000 tokens
  are 25.75 percent, the entry says 26, and the stats returned say 26.
\<close>

theorem rounded_percentage_counterexample:
  "map_sum id usage_numbers (fst (getUsageStats example_platform rounded_env example_service))
     = Inr (10300000, 40000000, 29700000, 26)
   \<and> map_sum id percentage_identity
        (fst (getUsageStats example_platform rounded_env example_service)) = Inr False
   \<and> (10300000 / 40000000 * 100 :: real) = 103 / 4"
proof -
  have a: "map_sum id usage_numbers
             (fst (getUsageStats example_platform rounded_env example_service))
           = Inr (10300000, 40000000, 29700000, 26)"
    by code_simp
  have b: "map_sum id percentage_identity
             (fst (getUsageStats example_platform rounded_env example_service)) = Inr False"
    by code_simp
  from a b show ?thesis by simp
qed

text \<open>
  C4. \<open>fetchQuotaLimit\<close> returns a quota entry exactly when the response is ok, its body has
  \<open>success\<close> and \<open>data.limits\<close>, and the list has an entry of type \<^verbatim>\<open>TOKENS_LIMIT\<close>; the
  entry returned is the first such entry. In every other case it throws. It throws the
  authentication error exactly on status 401 or 403 and the rate-limit error exactly on
  status 429.
\<close>

theorem fetchQuotaLimit_outcomes:
  "(fetchQuotaLimit r = Inr q \<longleftrightarrow>
      (\<exists>status body dd ls. r = Responded status (Some body) \<and> response_ok status
          \<and> q_success body \<and> q_data body = Some dd \<and> limits dd = Some ls
          \<and> find (\<lambda>limit. type limit = ''TOKENS_LIMIT'') ls = Some q))
   \<and> ((\<exists>q'. fetchQuotaLimit r = Inr q') \<longleftrightarrow>
      (\<exists>status body dd ls. r = Responded status (Some body) \<and> response_ok status
          \<and> q_success body \<and> q_data body = Some dd \<and> limits dd = Some ls
          \<and> (\<exists>limit \<in> set ls. type limit = ''TOKENS_LIMIT'')))
   \<and> ((\<exists>e. fetchQuotaLimit r = Inl e) \<longleftrightarrow> \<not> (\<exists>q'. fetchQuotaLimit r = Inr q'))
   \<and> (fetchQuotaLimit r = Inl AuthenticationFailed \<longleftrightarrow>
      (\<exists>body. r = Responded 401 body \<or> r = Responded 403 body))
   \<and> (fetchQuotaLimit r = Inl RateLimitExceeded \<longleftrightarrow> (\<exists>body. r = Responded 429 body))"
proof -
  have 1: "fetchQuotaLimit r = Inr q \<longleftrightarrow>
      (\<exists>status body dd ls. r = Responded status (Some body) \<and> response_ok status
          \<and> q_success body \<and> q_data body = Some dd \<and> limits dd = Some ls
          \<and> find (\<lambda>limit. type limit = ''TOKENS_LIMIT'') ls = Some q)" for q
    by (auto simp: fetchQuotaLimit_def split: fetch_result.splits option.splits if_splits
        Option.bind_splits)
  have 2: "(\<exists>q'. find (\<lambda>limit. type limit = ''TOKENS_LIMIT'') ls = Some q') \<longleftrightarrow>
      (\<exists>limit \<in> set ls. type limit = ''TOKENS_LIMIT'')" for ls :: "ZaiQuotaLimit list"
    by (induction ls) auto
  have 3: "(\<exists>e. fetchQuotaLimit r = Inl e) \<longleftrightarrow> \<not> (\<exists>q'. fetchQuotaLimit r = Inr q')"
    by (cases "fetchQuotaLimit r") auto
  have 4: "fetchQuotaLimit r = Inl AuthenticationFailed \<longleftrightarrow>
      (\<exists>body. r = Responded 401 body \<or> r = Responded 403 body)"
    by (auto simp: fetchQuotaLimit_def response_ok_def
        split: fetch_result.splits option.splits if_splits)
  have 5: "fetchQuotaLimit r = Inl RateLimitExceeded \<longleftrightarrow> (\<exists>body. r = Responded 429 body)"
    by (auto simp: fetchQuotaLimit_def response_ok_def
        split: fetch_result.splits option.splits if_splits)
  have 6: "(\<exists>q'. fetchQuotaLimit r = Inr q') \<longleftrightarrow>
      (\<exists>status body dd ls. r = Responded status (Some body) \<and> response_ok status
          \<and> q_success body \<and> q_data body = Some dd \<and> limits dd = Some ls
          \<and> (\<exists>limit \<in> set ls. type limit = ''TOKENS_LIMIT''))"
    unfolding 1 2[symmetric] by blast
  from 1 3 4 5 6 show ?thesis by blast
qed

text \<open>The theorem at four responses: a good one, and the statuses 401, 429 and 500.\<close>

theorem fetchQuotaLimit_outcomes_witness:
  "fetchQuotaLimit (Responded 200 (Some (quota_body example_quota))) = Inr example_quota
   \<and> fetchQuotaLimit (Responded 401 None) = Inl AuthenticationFailed
   \<and> fetchQuotaLimit (Responded 429 None) = Inl RateLimitExceeded
   \<and> fetchQuotaLimit (Responded 500 None) = Inl (RequestFailed 500)"
proof -
  have ok: "response_ok 200" by (simp add: response_ok_def)
  have f: "find (\<lambda>limit. type limit = ''TOKENS_LIMIT'')
             [example_quota\<lparr> type := ''TIME_LIMIT'' \<rparr>, example_quota] = Some example_quota"
    by (simp add: example_quota_def)
  have a: "fetchQuotaLimit (Responded 200 (Some (quota_body example_quota))) = Inr example_quota"
    using fetchQuotaLimit_outcomes[of "Responded 200 (Some (quota_body example_quota))" example_quota]
      ok f by (simp add: quota_body_def)
  have b: "fetchQuotaLimit (Responded 401 None) = Inl AuthenticationFailed"
    using fetchQuotaLimit_outcomes[of "Responded 401 None"] by simp
  have c: "fetchQuotaLimit (Responded 429 None) = Inl RateLimitExceeded"
    using fetchQuotaLimit_outcomes[of "Responded 429 None"] by simp
  have d: "fetchQuotaLimit (Responded 500 None) = Inl (RequestFailed 500)"
    by (simp add: fetchQuotaLimit_def response_ok_def)
  from a b c d show ?thesis by simp
qed

text \<open>
  C5. A call issues at most one request to the quota endpoint and at most one to the
  model-usage endpoint. When a call that has issued its requests finds one of them failed,
  those two requests are all it has issued, and its result is the fallback: the cached stats
  when there are some, the mock stats otherwise.
\<close>

theorem at_most_one_request_per_endpoint:
  "count_list (snd (snd (getUsageStats P env s))) QuotaLimit \<le> 1
   \<and> count_list (snd (snd (getUsageStats P env s))) ModelUsage \<le> 1
   \<and> (getUsageStats_start P env s = Awaiting rs
       \<and> ((\<exists>e. fetchQuotaLimit (quotaResponse env) = Inl e) \<or>
          (\<exists>e. fetchModelUsage (modelUsageResponse env) = Inl e))
      \<longrightarrow> snd (snd (getUsageStats P env s)) = [QuotaLimit, ModelUsage]
          \<and> fst (getUsageStats P env s) =
              (case cachedStats s of Some cached \<Rightarrow> Inr cached | None \<Rightarrow> getMockStats P env)
          \<and> fst (snd (getUsageStats P env s)) = s)"
proof -
  have reqs: "snd (snd (getUsageStats P env s)) = [] \<or>
              snd (snd (getUsageStats P env s)) = [QuotaLimit, ModelUsage]"
  proof (cases "getUsageStats_start P env s")
    case (Returned r)
    then show ?thesis by (simp add: getUsageStats_def)
  next
    case (Awaiting requests)
    then have "requests = [QuotaLimit, ModelUsage]" by (simp add: start_Awaiting_iff)
    with Awaiting show ?thesis by (simp add: getUsageStats_suspended)
  qed
  have fail: "snd (snd (getUsageStats P env s)) = [QuotaLimit, ModelUsage]
          \<and> fst (getUsageStats P env s) =
              (case cachedStats s of Some cached \<Rightarrow> Inr cached | None \<Rightarrow> getMockStats P env)
          \<and> fst (snd (getUsageStats P env s)) = s"
    if a: "getUsageStats_start P env s = Awaiting rs"
      and f: "(\<exists>e. fetchQuotaLimit (quotaResponse env) = Inl e) \<or>
              (\<exists>e. fetchModelUsage (modelUsageResponse env) = Inl e)"
  proof -
    obtain e where e: "Promise_all (fetchQuotaLimit (quotaResponse env))
               (fetchModelUsage (modelUsageResponse env)) = Inl e"
      using f Promise_all_rejects_iff by blast
    from a have rs: "rs = [QuotaLimit, ModelUsage]" by (simp add: start_Awaiting_iff)
    show ?thesis
      by (simp add: getUsageStats_suspended[OF a] resume_on_failure[OF e] rs
          getUsageStats_catch_def split: option.splits)
  qed
  from reqs have "count_list (snd (snd (getUsageStats P env s))) QuotaLimit \<le> 1"
    and "count_list (snd (snd (getUsageStats P env s))) ModelUsage \<le> 1"
    by auto
  with fail show ?thesis by blast
qed

text \<open>
  The theorem at the call answered with status 429, on the empty cache: the two requests and
  nothing more.
\<close>

theorem at_most_one_request_per_endpoint_witness:
  "getUsageStats_start example_platform failing_env example_service
     = Awaiting [QuotaLimit, ModelUsage]
   \<and> fetchQuotaLimit (quotaResponse failing_env) = Inl RateLimitExceeded
   \<and> snd (snd (getUsageStats example_platform failing_env example_service))
       = [QuotaLimit, ModelUsage]
   \<and> fst (getUsageStats example_platform failing_env example_service)
       = getMockStats example_platform failing_env
   \<and> count_list (snd (snd (getUsageStats example_platform failing_env example_service)))
       QuotaLimit = 1"
proof -
  have f: "fetchQuotaLimit (quotaResponse failing_env) = Inl RateLimitExceeded"
    by (simp add: failing_env_def fetchQuotaLimit_def response_ok_def)
  have s1: "getUsageStats_start example_platform failing_env example_service
              = Awaiting [QuotaLimit, ModelUsage]"
    by (simp add: getUsageStats_start_def cache_fresh_def example_service_def)
  have n: "cachedStats example_service = None" by (simp add: example_service_def)
  show ?thesis
    using at_most_one_request_per_endpoint[of example_platform failing_env example_service
        "[QuotaLimit, ModelUsage]"] f s1 n
    by simp
qed

text \<open>
  C6 (as amended). While a call is suspended it has at most two requests outstanding: the
  two that it issues together, one to each endpoint, when the cache is not fresh and a key is
  configured. A call that finds the cache fresh, or no key, issues none. (Calls are not
  serialised by the code; the bound is for the requests of one call.)
\<close>

theorem requests_in_flight_per_call:
  "in_flight (getUsageStats_start P env s) \<le> 2
   \<and> (in_flight (getUsageStats_start P env s) = 2 \<longleftrightarrow> \<not> cache_fresh env s \<and> apiKey s \<noteq> [])
   \<and> (in_flight (getUsageStats_start P env s) = 0 \<longleftrightarrow> cache_fresh env s \<or> apiKey s = [])
   \<and> (getUsageStats_start P env s = Awaiting [QuotaLimit, ModelUsage]
        \<longleftrightarrow> \<not> cache_fresh env s \<and> apiKey s \<noteq> [])"
  by (simp add: in_flight_def getUsageStats_start_def)

text \<open>The theorem at the example call (empty cache) and at the call on the fresh cache.\<close>

theorem requests_in_flight_per_call_witness:
  "\<not> cache_fresh example_env example_service \<and> apiKey example_service = ''key''
   \<and> getUsageStats_start example_platform example_env example_service
       = Awaiting [QuotaLimit, ModelUsage]
   \<and> cache_fresh soon_env cached_service
   \<and> in_flight (getUsageStats_start example_platform soon_env cached_service) = 0"
proof -
  have h1: "\<not> cache_fresh example_env example_service"
    by (simp add: cache_fresh_def example_service_def)
  have h2: "apiKey example_service = ''key''" by (simp add: example_service_def)
  have h3: "cache_fresh soon_env cached_service"
    by (simp add: cache_fresh_def cached_service_def soon_env_def CACHE_DURATION_def)
  show ?thesis
    using requests_in_flight_per_call[of example_platform example_env example_service]
      requests_in_flight_per_call[of example_platform soon_env cached_service] h1 h2 h3
    by simp
qed

text \<open>
  C6 as stated fails at the example call: when it suspends, the quota request and the
  model-usage request are both outstanding.
\<close>

theorem two_requests_in_flight_counterexample:
  "in_flight (getUsageStats_start example_platform example_env example_service) = 2"
  by (simp add: in_flight_def getUsageStats_start_def cache_fresh_def example_service_def)

text \<open>
  C7. The service that a request uses is the z.ai service exactly when the field
  \<open>dataSource\<close> of the application is the string \<^verbatim>\<open>zai\<close>, and the ccusage service otherwise;
  every polling or IPC request calls that service and no other. \<open>initialize\<close> does not fail,
  takes a truthy \<open>dataSource\<close> from the settings file, and sets \<^verbatim>\<open>ccusage\<close> when the file
  provides none.
\<close>

theorem active_service_follows_dataSource:
  "(getActiveService app = zaiService \<longleftrightarrow> dataSource app = JStr ''zai'')
   \<and> (getActiveService app = ccusageService \<longleftrightarrow> dataSource app \<noteq> JStr ''zai'')
   \<and> set (services_called app req) = {getActiveService app}
   \<and> (\<exists>app'. initialize JSON_parse tz file app = Inr app'
        \<and> (\<not> provides_dataSource JSON_parse file \<longrightarrow>
              dataSource app' = JStr ''ccusage'' \<and> getActiveService app' = ccusageService)
        \<and> (\<forall>c settings v. file = Contents c \<and> JSON_parse c = Some settings
              \<and> settings ''dataSource'' = Some v
              \<longrightarrow> dataSource app' = (if truthy v then v else JStr ''ccusage'')))"
proof -
  have 1: "getActiveService app = zaiService \<longleftrightarrow> dataSource app = JStr ''zai''"
    by (simp add: getActiveService_def)
  have 2: "getActiveService app = ccusageService \<longleftrightarrow> dataSource app \<noteq> JStr ''zai''"
    by (simp add: getActiveService_def)
  have 3: "set (services_called app req) = {getActiveService app}"
    by (cases req) (simp_all add: updateTrayTitle_def)
  have "\<exists>settings. loadSettings JSON_parse (defaultSettings tz) file = Inr settings"
    by (simp add: loadSettings_def split: sum.split option.split)
  then obtain settings where l: "loadSettings JSON_parse (defaultSettings tz) file = Inr settings"
    by blast
  let ?app' = "app\<lparr> menuBarDisplayMode :=
                      js_or (get_prop settings ''menuBarDisplayMode'') (JStr ''alternate''),
                    menuBarCostSource :=
                      js_or (get_prop settings ''menuBarCostSource'') (JStr ''today''),
                    dataSource := js_or (get_prop settings ''dataSource'') (JStr ''ccusage'') \<rparr>"
  have i: "initialize JSON_parse tz file app = Inr ?app'"
    by (simp add: initialize_def l)
  have d: "get_prop (defaultSettings tz) ''dataSource'' = JStr ''ccusage''"
    by (simp add: get_prop_def defaultSettings_def)
  have 4: "dataSource ?app' = JStr ''ccusage'' \<and> getActiveService ?app' = ccusageService"
    if "\<not> provides_dataSource JSON_parse file"
    using that l d
    by (auto simp: provides_dataSource_def loadSettings_def loadSettings_try_def
        getActiveService_def js_or_def get_prop_def map_add_def
        split: settings_file.splits option.splits)
  have 5: "dataSource ?app' = (if truthy v then v else JStr ''ccusage'')"
    if "file = Contents c" "JSON_parse c = Some st" "st ''dataSource'' = Some v"
    for c st v
    using that l
    by (auto simp: loadSettings_def loadSettings_try_def js_or_def get_prop_def map_add_def)
  from 1 2 3 i 4 5 show ?thesis by auto
qed

text \<open>
  The theorem at three settings files: one that chooses \<^verbatim>\<open>zai\<close>, none at all, and one
  without the field.
\<close>

theorem active_service_follows_dataSource_witness:
  "map_sum id getActiveService
     (initialize example_parse ''Europe/Paris''
        (Contents ''{\"dataSource\":\"zai\",\"resetHour\":5}'') new_CCSevaApp) = Inr zaiService
   \<and> \<not> provides_dataSource example_parse Missing
   \<and> map_sum id getActiveService
       (initialize example_parse ''Europe/Paris'' Missing new_CCSevaApp) = Inr ccusageService
   \<and> \<not> provides_dataSource example_parse (Contents ''{\"plan\":\"Pro\"}'')
   \<and> map_sum id dataSource
       (initialize example_parse ''Europe/Paris'' (Contents ''{\"plan\":\"Pro\"}'') new_CCSevaApp)
       = Inr (JStr ''ccusage'')
   \<and> services_called (new_CCSevaApp\<lparr> dataSource := JStr ''zai'' \<rparr>) RefreshDataRequest
       = [zaiService, zaiService]"
proof -
  let ?zai = "Contents ''{\"dataSource\":\"zai\",\"resetHour\":5}''"
  let ?pro = "Contents ''{\"plan\":\"Pro\"}''"
  have p1: "example_parse ''{\"dataSource\":\"zai\",\"resetHour\":5}''
              = Some [''dataSource'' \<mapsto> JStr ''zai'', ''resetHour'' \<mapsto> JNum 5]"
    by (simp add: example_parse_def)
  have n1: "\<not> provides_dataSource example_parse Missing"
    by (simp add: provides_dataSource_def)
  have n2: "\<not> provides_dataSource example_parse ?pro"
    by (simp add: provides_dataSource_def example_parse_def)
  have v: "[''dataSource'' \<mapsto> JStr ''zai'', ''resetHour'' \<mapsto> JNum 5] ''dataSource''
             = Some (JStr ''zai'')"
    by simp
  have "\<exists>a. initialize example_parse ''Europe/Paris'' ?zai new_CCSevaApp = Inr a
          \<and> dataSource a = (if truthy (JStr ''zai'') then JStr ''zai'' else JStr ''ccusage'')"
    using active_service_follows_dataSource[of new_CCSevaApp _ example_parse "''Europe/Paris''"
        ?zai] p1 v
    by blast
  then obtain a where a: "initialize example_parse ''Europe/Paris'' ?zai new_CCSevaApp = Inr a"
    and a2: "dataSource a = JStr ''zai''"
    by auto
  have a3: "getActiveService a = zaiService"
    using active_service_follows_dataSource[of a] a2 by simp
  have "\<exists>b. initialize example_parse ''Europe/Paris'' Missing new_CCSevaApp = Inr b
          \<and> getActiveService b = ccusageService"
    using active_service_follows_dataSource[of new_CCSevaApp _ example_parse "''Europe/Paris''"
        Missing] n1
    by blast
  then obtain b where b: "initialize example_parse ''Europe/Paris'' Missing new_CCSevaApp = Inr b"
    and b2: "getActiveService b = ccusageService"
    by blast
  have "\<exists>c. initialize example_parse ''Europe/Paris'' ?pro new_CCSevaApp = Inr c
          \<and> dataSource c = JStr ''ccusage''"
    using active_service_follows_dataSource[of new_CCSevaApp _ example_parse "''Europe/Paris''"
        ?pro] n2
    by blast
  then obtain c where c: "initialize example_parse ''Europe/Paris'' ?pro new_CCSevaApp = Inr c"
    and c2: "dataSource c = JStr ''ccusage''"
    by blast
  have d: "services_called (new_CCSevaApp\<lparr> dataSource := JStr ''zai'' \<rparr>) RefreshDataRequest
             = [zaiService, zaiService]"
    by (simp add: updateTrayTitle_def getActiveService_def)
  from n1 n2 a a3 b b2 c c2 d show ?thesis by simp
qed



text \<open>
  C9 (as amended). With a consistent \<open>localeCompare\<close>, \<open>mapHourlyToDailyUsage\<close> returns one
  entry per distinct date of \<^verbatim>\<open>x_time\<close> (the non-empty part of an hour string before its
  first space), in ascending order of \<open>localeCompare\<close> on the dates; every entry has
  \<open>totalCost = 0\<close>, and \<open>totalTokens\<close> is the floor of the total divided by the number of
  distinct dates when the total is positive, and 0 otherwise (also for a negative total).
\<close>

theorem daily_usage_per_date:
  assumes "consistent_comparator (localeCompare P)"
  shows "set (map date (mapHourlyToDailyUsage P d)) = set (response_dates d)
     \<and> distinct (map date (mapHourlyToDailyUsage P d))
     \<and> length (mapHourlyToDailyUsage P d) = card (set (response_dates d))
     \<and> sorted_wrt (\<lambda>a b. localeCompare P (date a) (date b) \<le> 0) (mapHourlyToDailyUsage P d)
     \<and> (\<forall>e \<in> set (mapHourlyToDailyUsage P d).
           totalCost e = 0 \<and>
           totalTokens e =
             (if totalTokens_of d > 0
              then Math_floor (totalTokens_of d / real (card (set (response_dates d))))
              else 0))"
proof -
  let ?ks = "foldl add_date [] (hourlyData_of d)"
  let ?cmp = "\<lambda>a b. localeCompare P (date a) (date b)"
  let ?R = "mapHourlyToDailyUsage P d"
  have dist: "distinct ?ks" by (rule distinct_foldl_add_date) simp
  have card: "card (set (response_dates d)) = length ?ks"
    using dist keys_set[of d] distinct_card by fastforce
  have cons: "consistent_comparator ?cmp"
    using assms unfolding consistent_comparator_def by blast
  have "set (map date ?R) = date ` set (distribute_tokens (totalTokens_of d) (map newDaily ?ks))"
    by (simp add: mapHourly_unfold set_array_sort)
  also have "\<dots> = set (map date (distribute_tokens (totalTokens_of d) (map newDaily ?ks)))"
    by simp
  also have "\<dots> = set (response_dates d)"
    unfolding map_date_distribute by (rule keys_set)
  finally have 1: "set (map date ?R) = set (response_dates d)" .
  have 2: "distinct (map date ?R)"
    by (simp add: mapHourly_unfold distinct_map_array_sort map_date_distribute dist)
  have 3: "length ?R = card (set (response_dates d))"
    by (simp add: mapHourly_unfold length_array_sort length_distribute card)
  have 4: "sorted_wrt (\<lambda>a b. ?cmp a b \<le> 0) ?R"
    unfolding mapHourly_unfold by (rule sorted_array_sort[OF cons])
  have 5: "\<forall>e \<in> set ?R. totalCost e = 0 \<and>
           totalTokens e = (if totalTokens_of d > 0
              then Math_floor (totalTokens_of d / real (card (set (response_dates d)))) else 0)"
    using distribute_entries[of _ "totalTokens_of d" ?ks]
    by (simp add: mapHourly_unfold set_array_sort card)
  from 1 2 3 4 5 show ?thesis by blast
qed

text \<open>The theorem at \<open>example_usage\<close>: three dated hours on two days share 7 tokens.\<close>

theorem daily_usage_per_date_witness:
  "consistent_comparator (localeCompare example_platform)
   \<and> mapHourlyToDailyUsage example_platform example_usage =
       [\<lparr> date = ''2024-03-10'', totalTokens = 3, totalCost = 0, models = [] \<rparr>,
        \<lparr> date = ''2024-03-11'', totalTokens = 3, totalCost = 0, models = [] \<rparr>]
   \<and> response_dates example_usage = [''2024-03-11'', ''2024-03-10'', ''2024-03-11'']
   \<and> totalTokens_of example_usage = 7"
proof -
  have h: "consistent_comparator (localeCompare example_platform)"
    by (simp add: example_platform_def consistent_code_unit_compare)
  have e: "mapHourlyToDailyUsage example_platform example_usage =
       [\<lparr> date = ''2024-03-10'', totalTokens = 3, totalCost = 0, models = [] \<rparr>,
        \<lparr> date = ''2024-03-11'', totalTokens = 3, totalCost = 0, models = [] \<rparr>]"
    by code_simp
  have r: "response_dates example_usage = [''2024-03-11'', ''2024-03-10'', ''2024-03-11'']"
    by code_simp
  have t: "totalTokens_of example_usage = 7" by code_simp
  show ?thesis using daily_usage_per_date[OF h, of example_usage] h e r t by simp
qed

text \<open>
  C9 as stated fails for a negative total: the guard \<^verbatim>\<open>totalTokens > 0\<close> leaves the entry
  at 0, where the floor of \<open>- 5 / 1\<close> is \<open>- 5\<close>.
\<close>

theorem daily_tokens_negative_total_counterexample:
  "totalTokens_of negative_usage = - 5
   \<and> card (set (response_dates negative_usage)) = 1
   \<and> map totalTokens (mapHourlyToDailyUsage example_platform negative_usage) = [0]
   \<and> Math_floor (totalTokens_of negative_usage
         / real (card (set (response_dates negative_usage)))) = - 5"
proof -
  have e: "mapHourlyToDailyUsage example_platform negative_usage =
       [\<lparr> date = ''2024-03-10'', totalTokens = 0, totalCost = 0, models = [] \<rparr>]"
    by code_simp
  have r: "response_dates negative_usage = [''2024-03-10'']" by code_simp
  have t: "totalTokens_of negative_usage = - 5" by code_simp
  show ?thesis by (simp add: e r t Math_floor_def)
qed

text \<open>
  C10. \<open>loadSettings\<close> never rejects. Without a file, with a file that cannot be read and
  with contents that do not parse it returns the defaults; otherwise it returns the defaults
  overridden, field by field, by the parsed contents. With the defaults of the constructor
  every required field is present in the result.
\<close>

theorem loadSettings_complete:
  "(\<exists>r. loadSettings JSON_parse defaults file = Inr r)
   \<and> (\<exists>r. loadSettings JSON_parse (defaultSettings tz) file = Inr r
          \<and> set required_fields \<subseteq> dom r)
   \<and> (file = Missing \<or> file = Unreadable \<or> (\<exists>c. file = Contents c \<and> JSON_parse c = None)
        \<longrightarrow> loadSettings JSON_parse defaults file = Inr defaults)
   \<and> (file = Contents c \<and> JSON_parse c = Some settings
        \<longrightarrow> (\<exists>r. loadSettings JSON_parse defaults file = Inr r
               \<and> (\<forall>k. r k = (case settings k of Some v \<Rightarrow> Some v | None \<Rightarrow> defaults k))))"
proof -
  have ret: "loadSettings JSON_parse d file = Inr d \<or>
             (\<exists>c st. file = Contents c \<and> JSON_parse c = Some st \<and>
                loadSettings JSON_parse d file = Inr (d ++ st))" for d
    by (cases "file") (auto simp: loadSettings_def loadSettings_try_def split: option.splits)
  have 1: "\<exists>r. loadSettings JSON_parse defaults file = Inr r"
    using ret[of defaults] by blast
  have req: "set required_fields \<subseteq> dom (defaultSettings tz)"
    by (simp add: required_fields_def defaultSettings_def)
  have 2: "\<exists>r. loadSettings JSON_parse (defaultSettings tz) file = Inr r
          \<and> set required_fields \<subseteq> dom r"
    using ret[of "defaultSettings tz"] req by auto
  have 3: "loadSettings JSON_parse defaults file = Inr defaults"
    if "file = Missing \<or> file = Unreadable \<or> (\<exists>c. file = Contents c \<and> JSON_parse c = None)"
    using that by (auto simp: loadSettings_def loadSettings_try_def)
  have 4: "\<exists>r. loadSettings JSON_parse defaults file = Inr r
               \<and> (\<forall>k. r k = (case settings k of Some v \<Rightarrow> Some v | None \<Rightarrow> defaults k))"
    if "file = Contents c \<and> JSON_parse c = Some settings"
    using that by (auto simp: loadSettings_def loadSettings_try_def map_add_def
        split: option.splits)
  from 1 2 3 4 show ?thesis by blast
qed

text \<open>
  The theorem at a file that sets \<^verbatim>\<open>plan\<close> only, at no file and at contents that do not
  parse.
\<close>

theorem loadSettings_complete_witness:
  "map_sum id (\<lambda>r. map r (''customTokenLimit'' # required_fields))
     (loadSettings example_parse (defaultSettings ''Europe/Paris'') (Contents ''{\"plan\":\"Pro\"}''))
     = Inr [Some JUndefined, Some (JStr ''Europe/Paris''), Some (JNum 0), Some (JStr ''Pro''),
            Some (JStr ''alternate''), Some (JStr ''today''), Some (JStr ''ccusage'')]
   \<and> loadSettings example_parse (defaultSettings ''Europe/Paris'') Missing
       = Inr (defaultSettings ''Europe/Paris'')
   \<and> example_parse ''{'' = None
   \<and> loadSettings example_parse (defaultSettings ''Europe/Paris'') (Contents ''{'')
       = Inr (defaultSettings ''Europe/Paris'')"
proof -
  let ?d = "defaultSettings ''Europe/Paris''"
  have p: "example_parse ''{\"plan\":\"Pro\"}'' = Some [''plan'' \<mapsto> JStr ''Pro'']"
    by (simp add: example_parse_def)
  have q: "example_parse ''{'' = None" by (simp add: example_parse_def)
  have "\<exists>r. loadSettings example_parse ?d (Contents ''{\"plan\":\"Pro\"}'') = Inr r
          \<and> (\<forall>k. r k = (case [''plan'' \<mapsto> JStr ''Pro''] k of
                            Some v \<Rightarrow> Some v | None \<Rightarrow> ?d k))"
    using loadSettings_complete[of example_parse ?d "Contents ''{\"plan\":\"Pro\"}''" _
        "''{\"plan\":\"Pro\"}''" "[''plan'' \<mapsto> JStr ''Pro'']"] p
    by blast
  then obtain r where r: "loadSettings example_parse ?d (Contents ''{\"plan\":\"Pro\"}'') = Inr r"
    and rk: "\<And>k. r k = (case [''plan'' \<mapsto> JStr ''Pro''] k of Some v \<Rightarrow> Some v | None \<Rightarrow> ?d k)"
    by blast
  have a: "map r (''customTokenLimit'' # required_fields)
     = [Some JUndefined, Some (JStr ''Europe/Paris''), Some (JNum 0), Some (JStr ''Pro''),
            Some (JStr ''alternate''), Some (JStr ''today''), Some (JStr ''ccusage'')]"
    by (simp add: rk required_fields_def defaultSettings_def)
  have b: "loadSettings example_parse ?d Missing = Inr ?d"
    using loadSettings_complete[of example_parse ?d Missing] by simp
  have c: "loadSettings example_parse ?d (Contents ''{'') = Inr ?d"
    using loadSettings_complete[of example_parse ?d "Contents ''{''"] q by simp
  from r a b q c show ?thesis by simp
qed

end
